theory Spec2Isabelle
  imports Complex_Main "HOL-Library.Multiset" "HOL-Library.Product_Lexorder"
    "HOL-Library.List_Lexorder" "HOL-Library.Char_ord"
begin

section \<open>Symbolic expressions of the algebra package\<close>

text \<open>
  \<^verbatim>\<open>qnet/misc/kerr_model_matrices.py\<close> consumes the expression trees of
  \<^verbatim>\<open>qnet.algebra.circuit_algebra\<close>. The constructors below are the node classes the
  module names (\<^verbatim>\<open>ScalarTimesOperator\<close>, \<^verbatim>\<open>OperatorPlus\<close>, \<^verbatim>\<open>OperatorSymbol\<close>,
  \<^verbatim>\<open>Destroy\<close>, \<^verbatim>\<open>Create\<close>, \<^verbatim>\<open>IdentityOperator\<close>) and two nodes that reach the module only
  as values of the package: the product node for the results of the operator product, and
  the zero operator, the neutral element of the sum. The scalar type \<open>'s\<close> stands for the coefficient objects (Python
  numbers or symbolic scalars); its arithmetic is exact. The mode type \<open>'m\<close> stands for the
  local Hilbert-space factors.
\<close>

datatype 'm hilbert_space = TrivialSpace | LocalSpace 'm

datatype ('s, 'm) operator =
    IdentityOperator
  | ZeroOperator
  | OperatorSymbol string "'m hilbert_space"
  | Destroy 'm
  | Create 'm
  | OperatorTimes "('s, 'm) operator list"
  | ScalarTimesOperator 's "('s, 'm) operator"
  | OperatorPlus "('s, 'm) operator list"

text \<open>
  An SLH model, as far as \<^verbatim>\<open>model_matrices\<close> reads it: \<^verbatim>\<open>slh.space.local_factors()\<close>,
  \<^verbatim>\<open>slh.cdim\<close>, \<^verbatim>\<open>slh.S\<close> and the column \<^verbatim>\<open>slh.L.matrix[:,0]\<close>.
\<close>

record ('s, 'm) slh =
  slh_local_factors :: "'m list"
  slh_cdim :: nat
  slh_S :: "'s list list"
  slh_L :: "('s, 'm) operator list"

text \<open>
  The operations of the algebra package that the module calls and that are not part of the
  module itself are parameters of the model:
  \<^item> \<open>to_complex c\<close> is Python's \<^verbatim>\<open>complex(c)\<close>, \<open>None\<close> when the coercion raises;
  \<^item> \<open>of_complex z\<close> is the scalar a Python complex literal denotes;
  \<^item> \<open>op_expand\<close>, \<open>op_simplify_scalar\<close> are \<^verbatim>\<open>.expand()\<close> and \<^verbatim>\<open>.simplify_scalar()\<close> on
    operators, \<open>slh_expand\<close>, \<open>slh_simplify_scalar\<close> the same on SLH objects;
  \<^item> \<open>op_times\<close> is the operator product \<^verbatim>\<open>*\<close>;
  \<^item> \<open>coherent_input slh us\<close> is \<^verbatim>\<open>slh.coherent_input(*us)\<close>, where \<open>None\<close> in \<open>us\<close> is the
    integer \<^verbatim>\<open>0\<close> of \<^verbatim>\<open>[0] * cdim\<close>;
  \<^item> \<open>symbolic_heisenberg_eom slh X noises\<close> is \<^verbatim>\<open>slh.symbolic_heisenberg_eom(X, noises=noises)\<close>;
  \<^item> \<open>output_processes slh noises\<close> is
    \<^verbatim>\<open>(slh.S * Matrix([noises]).T + slh.L).expand().simplify_scalar()\<close>.
\<close>

record ('s, 'm) engine =
  to_complex :: "'s \<Rightarrow> complex option"
  of_complex :: "complex \<Rightarrow> 's"
  op_expand :: "('s, 'm) operator \<Rightarrow> ('s, 'm) operator"
  op_simplify_scalar :: "('s, 'm) operator \<Rightarrow> ('s, 'm) operator"
  op_times :: "('s, 'm) operator \<Rightarrow> ('s, 'm) operator \<Rightarrow> ('s, 'm) operator"
  coherent_input :: "('s, 'm) slh \<Rightarrow> ('s, 'm) operator option list \<Rightarrow> ('s, 'm) slh"
  slh_expand :: "('s, 'm) slh \<Rightarrow> ('s, 'm) slh"
  slh_simplify_scalar :: "('s, 'm) slh \<Rightarrow> ('s, 'm) slh"
  symbolic_heisenberg_eom ::
    "('s, 'm) slh \<Rightarrow> ('s, 'm) operator \<Rightarrow> ('s, 'm) operator list \<Rightarrow> ('s, 'm) operator"
  output_processes :: "('s, 'm) slh \<Rightarrow> ('s, 'm) operator list \<Rightarrow> ('s, 'm) operator list"

section \<open>The coefficient map builder\<close>

text \<open>
  \<^verbatim>\<open>_coeff_term\<close>: a \<^verbatim>\<open>ScalarTimesOperator\<close> splits into its coefficient and term, every
  other node is the term itself with coefficient \<^verbatim>\<open>1\<close>.
\<close>

fun coeff_term :: "('s::one, 'm) operator \<Rightarrow> 's \<times> ('s, 'm) operator" where
  "coeff_term (ScalarTimesOperator c t) = (c, t)"
| "coeff_term e = (1, e)"

text \<open>
  The result of \<^verbatim>\<open>get_coeffs\<close> is a \<^verbatim>\<open>defaultdict(float)\<close>: a finite map whose keys are the
  terms stored so far, read through \<open>getitem\<close>, which gives the zero of the factory for a
  key that is not stored.
\<close>

type_synonym ('s, 'm) coeffs = "('s, 'm) operator \<rightharpoonup> 's"

definition getitem :: "('s::zero, 'm) coeffs \<Rightarrow> ('s, 'm) operator \<Rightarrow> 's" where
  "getitem ret t = (case ret t of None \<Rightarrow> 0 | Some c \<Rightarrow> c)"

text \<open>
  The guard of the \<^verbatim>\<open>try\<close> block, \<^verbatim>\<open>abs(complex(c)) < epsilon\<close>. When \<^verbatim>\<open>complex(c)\<close> raises, the
  bare \<^verbatim>\<open>except: pass\<close> swallows the exception and the addend is not skipped.
\<close>

definition below_epsilon :: "('s, 'm) engine \<Rightarrow> real \<Rightarrow> 's \<Rightarrow> bool" where
  "below_epsilon eng epsilon c =
     (case to_complex eng c of Some z \<Rightarrow> cmod z < epsilon | None \<Rightarrow> False)"

fun get_coeffs_loop ::
  "('s::{comm_monoid_add, one}, 'm) engine \<Rightarrow> real \<Rightarrow> ('s, 'm) operator list \<Rightarrow>
     ('s, 'm) coeffs \<Rightarrow> ('s, 'm) coeffs" where
  "get_coeffs_loop eng epsilon [] ret = ret"
| "get_coeffs_loop eng epsilon (e # es) ret =
     (case coeff_term e of (c, t) \<Rightarrow>
        if below_epsilon eng epsilon c then get_coeffs_loop eng epsilon es ret
        else get_coeffs_loop eng epsilon es (ret(t \<mapsto> getitem ret t + c)))"

text \<open>
  \<^verbatim>\<open>operands = expr.operands if isinstance(expr, OperatorPlus) else [expr]\<close>
\<close>

fun operands_of :: "('s, 'm) operator \<Rightarrow> ('s, 'm) operator list" where
  "operands_of (OperatorPlus xs) = xs"
| "operands_of e = [e]"

definition get_coeffs ::
  "('s::{comm_monoid_add, one}, 'm) engine \<Rightarrow> ('s, 'm) operator \<Rightarrow> bool \<Rightarrow> real \<Rightarrow>
     ('s, 'm) coeffs" where
  "get_coeffs eng expr expand epsilon =
     (let expr' = (if expand then op_expand eng expr else expr)
      in get_coeffs_loop eng epsilon (operands_of expr') Map.empty)"

subsection \<open>Vocabulary for the properties of the coefficient map\<close>

definition addend_coeff :: "('s::one, 'm) operator \<Rightarrow> 's" where
  "addend_coeff e = fst (coeff_term e)"

definition addend_term :: "('s::one, 'm) operator \<Rightarrow> ('s, 'm) operator" where
  "addend_term e = snd (coeff_term e)"

text \<open>An addend is kept when the truncation guard does not skip it.\<close>

definition kept :: "('s::one, 'm) engine \<Rightarrow> real \<Rightarrow> ('s, 'm) operator \<Rightarrow> bool" where
  "kept eng epsilon e = (\<not> below_epsilon eng epsilon (addend_coeff e))"

text \<open>The coefficient of a term in a list of addends: the sum over the addends that carry it.\<close>

definition coeff_sum ::
  "('s::{comm_monoid_add, one}, 'm) operator \<Rightarrow> ('s, 'm) operator list \<Rightarrow> 's" where
  "coeff_sum t es = sum_list (map addend_coeff (filter (\<lambda>e. addend_term e = t) es))"

subsection \<open>The sum of two expressions\<close>



text \<open>
  Modelled from the spec: the sum \<^verbatim>\<open>e1 + e2\<close> of two expressions is built by the algebra
  package \<^verbatim>\<open>qnet.algebra\<close>, which is not part of the module. The package keeps expressions
  canonical (in the spec a term is a canonical key, a sum is a collection of addend terms,
  and symbolic cancellation produces zeros): the sum collects the addends of both operands,
  leaves out the zero operator, merges the addends that carry the same term into one addend
  with the sum of their coefficients, and is the zero operator when no addend is left, the
  addend itself when one is left, and a sum node otherwise. So \<open>2 a + (3 a + a\<^sup>\<dagger>)\<close> has the
  two addends \<open>5 a\<close> and \<open>a\<^sup>\<dagger>\<close>, and \<open>a + (- a)\<close> is the zero operator.
\<close>






section \<open>Python lists and numpy arrays\<close>

datatype py_error = IndexError | ValueError

definition ebind :: "'e + 'a \<Rightarrow> ('a \<Rightarrow> 'e + 'b) \<Rightarrow> 'e + 'b" where
  "ebind m f = (case m of Inl e \<Rightarrow> Inl e | Inr x \<Rightarrow> f x)"

text \<open>A \<^verbatim>\<open>for\<close> loop over a list whose body may raise: the first exception ends the loop.\<close>

fun for_each :: "('x \<Rightarrow> 'st \<Rightarrow> 'e + 'st) \<Rightarrow> 'x list \<Rightarrow> 'st \<Rightarrow> 'e + 'st" where
  "for_each f [] st = Inr st"
| "for_each f (x # xs) st = (case f x st of Inl e \<Rightarrow> Inl e | Inr st' \<Rightarrow> for_each f xs st')"

text \<open>
  A two-dimensional numpy array carries its shape and its rows; a one-dimensional array is
  the list of its entries.
\<close>

record 'a ndarray2 =
  shape0 :: nat
  shape1 :: nat
  rows :: "'a list list"

datatype 'a ndarray = Array1 "'a list" | Array2 "'a ndarray2"

text \<open>An array of shape \<open>n \<times> k\<close>: the shape fields and the stored rows agree.\<close>

definition has_shape :: "'a ndarray2 \<Rightarrow> nat \<Rightarrow> nat \<Rightarrow> bool" where
  "has_shape m n k \<longleftrightarrow>
     shape0 m = n \<and> shape1 m = k \<and> length (rows m) = n \<and> list_all (\<lambda>r. length r = k) (rows m)"

definition zeros1 :: "nat \<Rightarrow> 'a::zero list" where
  "zeros1 n = replicate n 0"

definition zeros2 :: "nat \<Rightarrow> nat \<Rightarrow> 'a::zero ndarray2" where
  "zeros2 n m = \<lparr>shape0 = n, shape1 = m, rows = replicate n (replicate m 0)\<rparr>"

text \<open>\<^verbatim>\<open>a[i] = v\<close> and \<^verbatim>\<open>a[i, j] = v\<close> on arrays, with indices that come from \<^verbatim>\<open>enumerate\<close>.\<close>

definition setitem1 :: "'a list \<Rightarrow> nat \<Rightarrow> 'a \<Rightarrow> py_error + 'a list" where
  "setitem1 a i v = (if i < length a then Inr (a[i := v]) else Inl IndexError)"

definition setitem2 :: "'a ndarray2 \<Rightarrow> nat \<Rightarrow> nat \<Rightarrow> 'a \<Rightarrow> py_error + 'a ndarray2" where
  "setitem2 a i j v =
     (if i < shape0 a \<and> j < shape1 a
      then Inr (a\<lparr>rows := (rows a)[i := (rows a ! i)[j := v]]\<rparr>)
      else Inl IndexError)"

text \<open>\<^verbatim>\<open>xs[n] = v\<close> on a Python list with an integer index: a negative index counts from the end.\<close>

definition list_setitem :: "'a list \<Rightarrow> int \<Rightarrow> 'a \<Rightarrow> py_error + 'a list" where
  "list_setitem xs n v =
     (let len = int (length xs); j = (if n < 0 then n + len else n)
      in if 0 \<le> j \<and> j < len then Inr (xs[nat j := v]) else Inl IndexError)"

definition list_getitem :: "'a list \<Rightarrow> nat \<Rightarrow> py_error + 'a" where
  "list_getitem xs i = (if i < length xs then Inr (xs ! i) else Inl IndexError)"

text \<open>\<^verbatim>\<open>inputs == 0\<close> compares a list with an integer: never equal.\<close>

definition list_eq_int :: "'a list \<Rightarrow> int \<Rightarrow> bool" where
  "list_eq_int xs n = False"

text \<open>\<^verbatim>\<open>'{}'.format(n)\<close> for a non-negative integer: its decimal digits.\<close>

definition digit_char :: "nat \<Rightarrow> char" where
  "digit_char d = ''0123456789'' ! d"

fun str_nat :: "nat \<Rightarrow> string" where
  "str_nat n = (if n < 10 then [digit_char n] else str_nat (n div 10) @ [digit_char (n mod 10)])"

declare str_nat.simps [simp del]

section \<open>The model matrix assembler\<close>

text \<open>
  The nine arrays of \<^verbatim>\<open>model_matrices\<close>, and the two trailing elements \<^verbatim>\<open>eoms, dAps\<close> that
  \<^verbatim>\<open>return_eoms\<close> adds. The record is also the state of the local variables while the
  loops run.
\<close>

record ('s, 'm) model_matrices_result =
  mm_A :: "'s ndarray2"
  mm_B :: "'s ndarray2"
  mm_C :: "'s ndarray2"
  mm_D :: "'s list list"
  mm_A_kerr :: "'s ndarray2"
  mm_B_input :: "'s ndarray2"
  mm_D_input :: "'s ndarray2"
  mm_u_c :: "'s list"
  mm_U_c :: "'s list"
  mm_extras :: "(('s, 'm) operator list \<times> ('s, 'm) operator list) option"

text \<open>\<^verbatim>\<open>modes = sorted(slh.space.local_factors())\<close>\<close>

definition mm_modes :: "('s, 'm::linorder) slh \<Rightarrow> 'm list" where
  "mm_modes slh = sort (slh_local_factors slh)"

text \<open>\<^verbatim>\<open>noises = [OperatorSymbol('dA/dt_{{{}}}'.format(n), TrivialSpace) for n in range(cdim)]\<close>\<close>

definition mm_noises :: "nat \<Rightarrow> ('s, 'm) operator list" where
  "mm_noises cdim =
     map (\<lambda>n. OperatorSymbol (''dA/dt_{'' @ str_nat n @ ''}'') TrivialSpace) [0..<cdim]"

text \<open>
  \<^verbatim>\<open>dynamic_input_ports\<close> is a dict from port index to input name, here the list of its
  items (a dict has each key once); \<^verbatim>\<open>sorted(dynamic_input_ports.items())\<close> sorts the pairs
  lexicographically, and \<^verbatim>\<open>len(dynamic_input_ports)\<close> is the length of the list.
\<close>

definition mm_inputs :: "(int \<times> string) list \<Rightarrow> ('s, 'm) operator list" where
  "mm_inputs dynamic_input_ports =
     map (\<lambda>(n, u_name). OperatorSymbol (''u_{'' @ u_name @ ''}'') TrivialSpace)
       (sort dynamic_input_ports)"

text \<open>
  \<^verbatim>\<open>inputs_extended = [0] * cdim\<close>, then
  \<^verbatim>\<open>for ii, n in zip(inputs, sorted(dynamic_input_ports.keys())): inputs_extended[n] = ii\<close>
\<close>

definition mm_inputs_extended ::
  "nat \<Rightarrow> (int \<times> string) list \<Rightarrow> py_error + ('s, 'm) operator option list" where
  "mm_inputs_extended cdim dynamic_input_ports =
     for_each (\<lambda>(ii, n) inputs_extended. list_setitem inputs_extended n (Some ii))
       (zip (mm_inputs dynamic_input_ports) (sort (map fst dynamic_input_ports)))
       (replicate cdim None)"

text \<open>\<^verbatim>\<open>slh_input = slh.coherent_input(*inputs_extended).expand().simplify_scalar()\<close>\<close>

definition mm_slh_input ::
  "('s, 'm) engine \<Rightarrow> ('s, 'm) slh \<Rightarrow> ('s, 'm) operator option list \<Rightarrow> ('s, 'm) slh" where
  "mm_slh_input eng slh inputs_extended =
     slh_simplify_scalar eng (slh_expand eng (coherent_input eng slh inputs_extended))"

text \<open>
  \<^verbatim>\<open>eoms = [slh_input.symbolic_heisenberg_eom(Destroy(s), noises=noises).expand().simplify_scalar()
     for s in modes]\<close>
\<close>

definition mm_eoms ::
  "('s, 'm) engine \<Rightarrow> ('s, 'm) slh \<Rightarrow> 'm list \<Rightarrow> ('s, 'm) operator list \<Rightarrow>
     ('s, 'm) operator list" where
  "mm_eoms eng slh_input modes noises =
     map (\<lambda>s. op_simplify_scalar eng
                (op_expand eng (symbolic_heisenberg_eom eng slh_input (Destroy s) noises)))
       modes"

text \<open>The key \<^verbatim>\<open>Create(skk) * Destroy(skk) * Destroy(sjj)\<close>.\<close>

definition kerr_term :: "('s, 'm) engine \<Rightarrow> 'm \<Rightarrow> 'm \<Rightarrow> ('s, 'm) operator" where
  "kerr_term eng skk sjj = op_times eng (op_times eng (Create skk) (Destroy skk)) (Destroy sjj)"

text \<open>
  The bodies of the three inner loops of the first loop nest.
  Reading a missing key of the \<^verbatim>\<open>defaultdict\<close> also stores the default under that key; the
  stored zero reads the same as the missing key, so the map is not threaded through.
\<close>

definition mode_loop_body ::
  "('s::field, 'm) engine \<Rightarrow> ('s, 'm) coeffs \<Rightarrow> nat \<Rightarrow> 'm \<Rightarrow> nat \<times> 'm \<Rightarrow>
     ('s, 'm) model_matrices_result \<Rightarrow> py_error + ('s, 'm) model_matrices_result" where
  "mode_loop_body eng coeffsjj jj sjj = (\<lambda>(kk, skk) r.
     ebind (setitem2 (mm_A r) jj kk (getitem coeffsjj (Destroy skk))) (\<lambda>a.
     ebind (setitem2 (mm_A_kerr r) jj kk
              (getitem coeffsjj (kerr_term eng skk sjj) / of_complex eng (- (2 * \<i>)))) (\<lambda>ak.
     Inr (r\<lparr>mm_A := a, mm_A_kerr := ak\<rparr>))))"

definition noise_loop_body ::
  "('s::zero, 'm) coeffs \<Rightarrow> nat \<Rightarrow> nat \<times> ('s, 'm) operator \<Rightarrow>
     ('s, 'm) model_matrices_result \<Rightarrow> py_error + ('s, 'm) model_matrices_result" where
  "noise_loop_body coeffsjj jj = (\<lambda>(kk, dAkk) r.
     ebind (setitem2 (mm_B r) jj kk (getitem coeffsjj dAkk)) (\<lambda>b. Inr (r\<lparr>mm_B := b\<rparr>)))"

definition input_loop_body ::
  "('s::zero, 'm) coeffs \<Rightarrow> nat \<Rightarrow> ('s, 'm) operator list \<Rightarrow> nat \<times> ('s, 'm) operator \<Rightarrow>
     ('s, 'm) model_matrices_result \<Rightarrow> py_error + ('s, 'm) model_matrices_result" where
  "input_loop_body coeffsjj jj inputs = (\<lambda>(kk, u_kk) r.
     if list_eq_int inputs 0 then Inr r
     else ebind (setitem2 (mm_B_input r) jj kk (getitem coeffsjj u_kk))
            (\<lambda>b. Inr (r\<lparr>mm_B_input := b\<rparr>)))"

text \<open>The body of \<^verbatim>\<open>for jj, sjj in enumerate(modes)\<close>.\<close>

definition mode_row_body ::
  "('s::field, 'm) engine \<Rightarrow> real \<Rightarrow> ('s, 'm) operator list \<Rightarrow> 'm list \<Rightarrow>
     ('s, 'm) operator list \<Rightarrow> ('s, 'm) operator list \<Rightarrow> nat \<times> 'm \<Rightarrow>
     ('s, 'm) model_matrices_result \<Rightarrow> py_error + ('s, 'm) model_matrices_result" where
  "mode_row_body eng epsilon eoms modes noises inputs = (\<lambda>(jj, sjj) r.
     ebind (list_getitem eoms jj) (\<lambda>eom.
     let coeffsjj = get_coeffs eng eom False epsilon in
     ebind (for_each (mode_loop_body eng coeffsjj jj sjj) (enumerate 0 modes) r) (\<lambda>r1.
     ebind (for_each (noise_loop_body coeffsjj jj) (enumerate 0 noises) r1) (\<lambda>r2.
     ebind (for_each (input_loop_body coeffsjj jj inputs) (enumerate 0 inputs) r2) (\<lambda>r3.
     ebind (setitem1 (mm_u_c r3) jj (getitem coeffsjj IdentityOperator)) (\<lambda>u.
     Inr (r3\<lparr>mm_u_c := u\<rparr>)))))))"

text \<open>The second loop nest, over the rows of \<^verbatim>\<open>slh_input.L.matrix[:,0]\<close>.\<close>

definition output_mode_body ::
  "('s::zero, 'm) coeffs \<Rightarrow> nat \<Rightarrow> nat \<times> 'm \<Rightarrow>
     ('s, 'm) model_matrices_result \<Rightarrow> py_error + ('s, 'm) model_matrices_result" where
  "output_mode_body coeffsjj jj = (\<lambda>(kk, skk) r.
     ebind (setitem2 (mm_C r) jj kk (getitem coeffsjj (Destroy skk)))
       (\<lambda>c. Inr (r\<lparr>mm_C := c\<rparr>)))"

definition output_input_body ::
  "('s::zero, 'm) coeffs \<Rightarrow> nat \<Rightarrow> nat \<times> ('s, 'm) operator \<Rightarrow>
     ('s, 'm) model_matrices_result \<Rightarrow> py_error + ('s, 'm) model_matrices_result" where
  "output_input_body coeffsjj jj = (\<lambda>(kk, u_kk) r.
     ebind (setitem2 (mm_D_input r) jj kk (getitem coeffsjj u_kk))
       (\<lambda>d. Inr (r\<lparr>mm_D_input := d\<rparr>)))"

definition output_row_body ::
  "('s::field, 'm) engine \<Rightarrow> 'm list \<Rightarrow> ('s, 'm) operator list \<Rightarrow>
     nat \<times> ('s, 'm) operator \<Rightarrow>
     ('s, 'm) model_matrices_result \<Rightarrow> py_error + ('s, 'm) model_matrices_result" where
  "output_row_body eng modes inputs = (\<lambda>(jj, Ljj) r.
     let coeffsjj = get_coeffs eng Ljj False 0 in
     ebind (for_each (output_mode_body coeffsjj jj) (enumerate 0 modes) r) (\<lambda>r1.
     ebind (setitem1 (mm_U_c r1) jj (getitem coeffsjj IdentityOperator)) (\<lambda>u.
     for_each (output_input_body coeffsjj jj) (enumerate 0 inputs) (r1\<lparr>mm_U_c := u\<rparr>))))"

text \<open>The arrays as \<^verbatim>\<open>np.zeros\<close> allocates them, with \<^verbatim>\<open>D = slh.S\<close>.\<close>

definition mm_init ::
  "('s::zero, 'm) slh \<Rightarrow> nat \<Rightarrow> nat \<Rightarrow> nat \<Rightarrow> ('s, 'm) model_matrices_result" where
  "mm_init slh ncav cdim ninputs =
     \<lparr>mm_A = zeros2 ncav ncav, mm_B = zeros2 ncav cdim, mm_C = zeros2 cdim ncav,
      mm_D = slh_S slh, mm_A_kerr = zeros2 ncav ncav, mm_B_input = zeros2 ncav ninputs,
      mm_D_input = zeros2 cdim ninputs, mm_u_c = zeros1 ncav, mm_U_c = zeros1 cdim,
      mm_extras = None\<rparr>"

text \<open>
  \<^verbatim>\<open>model_matrices\<close>. The result is \<open>Inl IndexError\<close> when an assignment raises: a port index
  of \<^verbatim>\<open>dynamic_input_ports\<close> outside \<open>-cdim, \<dots>, cdim - 1\<close>, or a row of \<^verbatim>\<open>L\<close> beyond \<open>cdim\<close>.
  The two \<^verbatim>\<open>print\<close> calls write progress messages and are left out.
\<close>

definition model_matrices ::
  "('s::field, 'm::linorder) engine \<Rightarrow> ('s, 'm) slh \<Rightarrow> (int \<times> string) list \<Rightarrow> bool \<Rightarrow>
     real \<Rightarrow> bool \<Rightarrow> py_error + ('s, 'm) model_matrices_result" where
  "model_matrices eng slh dynamic_input_ports apply_kerr_diagonal_correction epsilon return_eoms =
     (let modes = mm_modes slh;
          ncav = length modes;
          cdim = slh_cdim slh;
          ninputs = length dynamic_input_ports;
          r0 = mm_init slh ncav cdim ninputs;
          noises = mm_noises cdim;
          inputs = mm_inputs dynamic_input_ports
      in ebind (mm_inputs_extended cdim dynamic_input_ports) (\<lambda>inputs_extended.
         let slh_input = mm_slh_input eng slh inputs_extended;
             eoms = mm_eoms eng slh_input modes noises
         in ebind (for_each (mode_row_body eng epsilon eoms modes noises inputs)
                     (enumerate 0 modes) r0) (\<lambda>r1.
            ebind (for_each (output_row_body eng modes inputs)
                     (enumerate 0 (slh_L slh_input)) r1) (\<lambda>r2.
            if return_eoms
            then Inr (r2\<lparr>mm_extras := Some (eoms, output_processes eng slh_input noises)\<rparr>)
            else Inr r2))))"

subsection \<open>Vocabulary for the properties of the assembler\<close>

text \<open>
  The values of \<^verbatim>\<open>slh_input\<close> and \<^verbatim>\<open>eoms\<close> in a call, and the coefficient map \<^verbatim>\<open>coeffsjj\<close> of
  mode row \<open>jj\<close> in the first loop nest (they are read only in calls where building
  \<^verbatim>\<open>inputs_extended\<close> does not raise).
\<close>

definition call_slh_input ::
  "('s, 'm) engine \<Rightarrow> ('s, 'm) slh \<Rightarrow> (int \<times> string) list \<Rightarrow> ('s, 'm) slh" where
  "call_slh_input eng slh dynamic_input_ports =
     mm_slh_input eng slh
       (case mm_inputs_extended (slh_cdim slh) dynamic_input_ports of
          Inr inputs_extended \<Rightarrow> inputs_extended | Inl e \<Rightarrow> [])"

definition call_eoms ::
  "('s, 'm::linorder) engine \<Rightarrow> ('s, 'm) slh \<Rightarrow> (int \<times> string) list \<Rightarrow>
     ('s, 'm) operator list" where
  "call_eoms eng slh dynamic_input_ports =
     mm_eoms eng (call_slh_input eng slh dynamic_input_ports) (mm_modes slh)
       (mm_noises (slh_cdim slh))"

definition call_coeffs ::
  "('s::field, 'm::linorder) engine \<Rightarrow> ('s, 'm) slh \<Rightarrow> (int \<times> string) list \<Rightarrow> real \<Rightarrow>
     nat \<Rightarrow> ('s, 'm) coeffs" where
  "call_coeffs eng slh dynamic_input_ports epsilon jj =
     get_coeffs eng (call_eoms eng slh dynamic_input_ports ! jj) False epsilon"

text \<open>
  The array of shape \<open>n \<times> m\<close> whose first \<open>k\<close> rows are \<open>rowf 0, \<dots>, rowf (k - 1)\<close> and whose
  other rows are still zero, and the state of the local variables after \<open>k\<close> rounds of the
  first loop nest.
\<close>

definition rows_upto :: "nat \<Rightarrow> nat \<Rightarrow> (nat \<Rightarrow> 'a list) \<Rightarrow> nat \<Rightarrow> 'a::zero ndarray2" where
  "rows_upto n m rowf k =
     \<lparr>shape0 = n, shape1 = m, rows = map rowf [0..<k] @ replicate (n - k) (replicate m 0)\<rparr>"

definition kerr_entry ::
  "('s::field, 'm) engine \<Rightarrow> ('s, 'm) coeffs \<Rightarrow> 'm \<Rightarrow> 'm \<Rightarrow> 's" where
  "kerr_entry eng coeffsjj sjj skk =
     getitem coeffsjj (kerr_term eng skk sjj) / of_complex eng (- (2 * \<i>))"

definition mode_rows_state ::
  "('s::field, 'm) engine \<Rightarrow> real \<Rightarrow> ('s, 'm) operator list \<Rightarrow> 'm list \<Rightarrow>
     ('s, 'm) operator list \<Rightarrow> ('s, 'm) operator list \<Rightarrow>
     ('s, 'm) model_matrices_result \<Rightarrow> nat \<Rightarrow> ('s, 'm) model_matrices_result" where
  "mode_rows_state eng epsilon eoms modes noises inputs r0 k =
     r0\<lparr>mm_A := rows_upto (length modes) (length modes)
              (\<lambda>jj. map (\<lambda>skk. getitem (get_coeffs eng (eoms ! jj) False epsilon) (Destroy skk))
                      modes) k,
        mm_A_kerr := rows_upto (length modes) (length modes)
              (\<lambda>jj. map (kerr_entry eng (get_coeffs eng (eoms ! jj) False epsilon) (modes ! jj))
                      modes) k,
        mm_B := rows_upto (length modes) (length noises)
              (\<lambda>jj. map (getitem (get_coeffs eng (eoms ! jj) False epsilon)) noises) k,
        mm_B_input := rows_upto (length modes) (length inputs)
              (\<lambda>jj. map (getitem (get_coeffs eng (eoms ! jj) False epsilon)) inputs) k,
        mm_u_c := map (\<lambda>jj. getitem (get_coeffs eng (eoms ! jj) False epsilon) IdentityOperator)
                    [0..<k] @ replicate (length modes - k) 0\<rparr>"

text \<open>
  What the second loop nest keeps of the state \<open>r0\<close> it starts from: it writes only \<^verbatim>\<open>C\<close>,
  \<^verbatim>\<open>U_c\<close> and \<^verbatim>\<open>D_input\<close>, and these keep their shapes.
\<close>

definition output_inv ::
  "('s, 'm) model_matrices_result \<Rightarrow> nat \<Rightarrow> nat \<Rightarrow> nat \<Rightarrow> ('s, 'm) model_matrices_result \<Rightarrow> bool"
  where
  "output_inv r0 cdim ncav ninputs r \<longleftrightarrow>
     mm_A r = mm_A r0 \<and> mm_B r = mm_B r0 \<and> mm_D r = mm_D r0 \<and> mm_A_kerr r = mm_A_kerr r0 \<and>
     mm_B_input r = mm_B_input r0 \<and> mm_u_c r = mm_u_c r0 \<and> mm_extras r = mm_extras r0 \<and>
     has_shape (mm_C r) cdim ncav \<and> has_shape (mm_D_input r) cdim ninputs \<and>
     length (mm_U_c r) = cdim"

text \<open>The output-coupling part of a result: \<^verbatim>\<open>C\<close>, \<^verbatim>\<open>U_c\<close> and \<^verbatim>\<open>D_input\<close>.\<close>

definition output_part ::
  "('s, 'm) model_matrices_result \<Rightarrow> 's ndarray2 \<times> 's list \<times> 's ndarray2" where
  "output_part r = (mm_C r, mm_U_c r, mm_D_input r)"

section \<open>The SDE function builder\<close>

text \<open>
  The numeric model matrices that \<^verbatim>\<open>prepare_sde\<close> unpacks. Entries are complex numbers with
  exact arithmetic. \<^verbatim>\<open>u_c\<close> and \<^verbatim>\<open>U_c\<close> may be one- or two-dimensional (a column), which is
  why \<^verbatim>\<open>prepare_sde\<close> flattens \<^verbatim>\<open>u_c\<close>.
\<close>

record numeric_model_matrices =
  nm_A :: "complex ndarray2"
  nm_B :: "complex ndarray2"
  nm_C :: "complex ndarray2"
  nm_D :: "complex ndarray2"
  nm_A_kerr :: "complex ndarray2"
  nm_B_input :: "complex ndarray2"
  nm_D_input :: "complex ndarray2"
  nm_u_c :: "complex ndarray"
  nm_U_c :: "complex ndarray"

text \<open>\<^verbatim>\<open>M.dot(v)\<close> for a two-dimensional \<^verbatim>\<open>M\<close> and a one-dimensional \<^verbatim>\<open>v\<close>.\<close>

definition dot :: "complex ndarray2 \<Rightarrow> complex list \<Rightarrow> py_error + complex list" where
  "dot m v =
     (if shape1 m = length v
      then Inr (map (\<lambda>row. sum_list (map2 (*) row v)) (rows m))
      else Inl ValueError)"

text \<open>An elementwise binary operation on one-dimensional arrays, with numpy's broadcasting.\<close>

definition broadcast ::
  "(complex \<Rightarrow> complex \<Rightarrow> complex) \<Rightarrow> complex list \<Rightarrow> complex list \<Rightarrow>
     py_error + complex list" where
  "broadcast f x y =
     (if length x = length y then Inr (map2 f x y)
      else if length x = 1 then Inr (map (f (hd x)) y)
      else if length y = 1 then Inr (map (\<lambda>a. f a (hd y)) x)
      else Inl ValueError)"

fun ravel :: "'a ndarray \<Rightarrow> 'a list" where
  "ravel (Array1 v) = v"
| "ravel (Array2 m) = concat (rows m)"

text \<open>\<^verbatim>\<open>B / 2.\<close>\<close>

definition array_div :: "complex ndarray2 \<Rightarrow> complex \<Rightarrow> complex ndarray2" where
  "array_div m c = m\<lparr>rows := map (map (\<lambda>z. z / c)) (rows m)\<rparr>"

text \<open>
  The closure \<^verbatim>\<open>f\<close>:
  \<^verbatim>\<open>A.dot(a) - 2j * (A_kerr.dot(a.conjugate() * a)) * a + u_c + B_input.dot(input_fn(t))\<close>,
  with the operands evaluated left to right.
\<close>

definition sde_f ::
  "complex ndarray2 \<Rightarrow> complex ndarray2 \<Rightarrow> complex list \<Rightarrow> complex ndarray2 \<Rightarrow>
     (real \<Rightarrow> complex list) \<Rightarrow> complex list \<Rightarrow> real \<Rightarrow> py_error + complex list" where
  "sde_f A A_kerr u_c B_input input_fn a t =
     ebind (dot A a) (\<lambda>Aa.
     ebind (broadcast (*) (map cnj a) a) (\<lambda>n.
     ebind (dot A_kerr n) (\<lambda>k.
     ebind (broadcast (*) (map ((*) (2 * \<i>)) k) a) (\<lambda>ka.
     ebind (broadcast (-) Aa ka) (\<lambda>d.
     ebind (broadcast (+) d u_c) (\<lambda>du.
     ebind (dot B_input (input_fn t)) (\<lambda>Bu.
     broadcast (+) du Bu)))))))"

text \<open>The closure \<^verbatim>\<open>g\<close>: \<^verbatim>\<open>return B_over_2\<close>.\<close>

definition sde_g :: "complex ndarray2 \<Rightarrow> complex list \<Rightarrow> real \<Rightarrow> complex ndarray2" where
  "sde_g B_over_2 a t = B_over_2"

definition prepare_sde ::
  "numeric_model_matrices \<Rightarrow> (real \<Rightarrow> complex list) \<Rightarrow>
     (complex list \<Rightarrow> real \<Rightarrow> py_error + complex list) \<times>
     (complex list \<Rightarrow> real \<Rightarrow> complex ndarray2)" where
  "prepare_sde numeric_model_matrices input_fn =
     (let B_over_2 = array_div (nm_B numeric_model_matrices) 2;
          u_c = ravel (nm_u_c numeric_model_matrices)
      in (sde_f (nm_A numeric_model_matrices) (nm_A_kerr numeric_model_matrices) u_c
            (nm_B_input numeric_model_matrices) input_fn,
          sde_g B_over_2))"

section \<open>Example scalars and a stand-in engine\<close>

text \<open>
  A scalar domain with symbolic elements, for the examples: a number plus a formal sum of
  named symbols. Only a scalar with no symbol coerces to a complex number.
\<close>

datatype symscalar = SymScalar complex "string multiset"

instantiation symscalar :: "{comm_monoid_add, one}"
begin

definition zero_symscalar :: symscalar where
  "zero_symscalar = SymScalar 0 {#}"

definition one_symscalar :: symscalar where
  "one_symscalar = SymScalar 1 {#}"

fun plus_symscalar :: "symscalar \<Rightarrow> symscalar \<Rightarrow> symscalar" where
  "plus_symscalar (SymScalar a M) (SymScalar b N) = SymScalar (a + b) (M + N)"

instance
proof
  fix a b c :: symscalar
  show "a + b + c = a + (b + c)"
    by (cases a; cases b; cases c) (simp add: add.assoc)
  show "a + b = b + a"
    by (cases a; cases b) (simp add: add.commute)
  show "0 + a = a"
    by (cases a) (simp add: zero_symscalar_def)
qed

end

fun sym_to_complex :: "symscalar \<Rightarrow> complex option" where
  "sym_to_complex (SymScalar a M) = (if M = {#} then Some a else None)"

fun factors :: "('s, 'm) operator \<Rightarrow> ('s, 'm) operator list" where
  "factors (OperatorTimes xs) = xs"
| "factors e = [e]"

fun add_drive :: "('s, 'm) operator \<Rightarrow> ('s, 'm) operator option \<Rightarrow> ('s, 'm) operator" where
  "add_drive l None = l"
| "add_drive l (Some u) = OperatorPlus (operands_of l @ operands_of u)"

text \<open>
  A minimal stand-in for the algebra package, for the examples: expansion and
  simplification leave expressions as they are, a product lists its factors, a coherent
  input adds the drive of each port to the coupling of that port, and the equation of
  motion of the annihilation operator of mode \<open>s\<close> is given by the table \<open>eom\<close>.
\<close>

definition mock_engine ::
  "('s \<Rightarrow> complex option) \<Rightarrow> (complex \<Rightarrow> 's) \<Rightarrow> ('m \<Rightarrow> ('s, 'm) operator) \<Rightarrow> ('s, 'm) engine" where
  "mock_engine tc oc eom =
     \<lparr>to_complex = tc, of_complex = oc, op_expand = (\<lambda>e. e), op_simplify_scalar = (\<lambda>e. e),
      op_times = (\<lambda>a b. OperatorTimes (factors a @ factors b)),
      coherent_input = (\<lambda>slh us. slh\<lparr>slh_L := map2 add_drive (slh_L slh) us\<rparr>),
      slh_expand = (\<lambda>slh. slh), slh_simplify_scalar = (\<lambda>slh. slh),
      symbolic_heisenberg_eom = (\<lambda>slh X noises. case X of Destroy s \<Rightarrow> eom s | _ \<Rightarrow> X),
      output_processes = (\<lambda>slh noises. slh_L slh)\<rparr>"

definition numeric_engine :: "(nat \<Rightarrow> (complex, nat) operator) \<Rightarrow> (complex, nat) engine" where
  "numeric_engine eom = mock_engine Some (\<lambda>z. z) eom"

definition symbolic_engine :: "(symscalar, nat) engine" where
  "symbolic_engine = mock_engine sym_to_complex (\<lambda>z. SymScalar z {#}) (\<lambda>s. Destroy s)"

text \<open>A set of numeric model matrices with one mode, one port and one input.\<close>

definition example_matrices :: numeric_model_matrices where
  "example_matrices =
     \<lparr>nm_A = \<lparr>shape0 = 1, shape1 = 1, rows = [[1]]\<rparr>,
      nm_B = \<lparr>shape0 = 1, shape1 = 1, rows = [[6]]\<rparr>,
      nm_C = \<lparr>shape0 = 1, shape1 = 1, rows = [[0]]\<rparr>,
      nm_D = \<lparr>shape0 = 1, shape1 = 1, rows = [[1]]\<rparr>,
      nm_A_kerr = \<lparr>shape0 = 1, shape1 = 1, rows = [[2]]\<rparr>,
      nm_B_input = \<lparr>shape0 = 1, shape1 = 1, rows = [[3]]\<rparr>,
      nm_D_input = \<lparr>shape0 = 1, shape1 = 1, rows = [[0]]\<rparr>,
      nm_u_c = Array2 \<lparr>shape0 = 1, shape1 = 1, rows = [[4]]\<rparr>,
      nm_U_c = Array1 [0]\<rparr>"

text \<open>
  A model with one mode, one port and one dynamic input named \<open>in\<close> on port \<open>0\<close>: the equation
  of motion of the mode has a linear term, a Kerr term with coefficient \<open>1/1000\<close>, the input
  symbol and the noise symbol; the coupling of the port is \<open>2 a\<close>.
\<close>

definition example_eom :: "nat \<Rightarrow> (complex, nat) operator" where
  "example_eom s = OperatorPlus
     [ScalarTimesOperator (- 1) (Destroy 0),
      ScalarTimesOperator (1 / 1000) (OperatorTimes [Create 0, Destroy 0, Destroy 0]),
      ScalarTimesOperator 3 (OperatorSymbol ''u_{in}'' TrivialSpace),
      ScalarTimesOperator 4 (OperatorSymbol ''dA/dt_{0}'' TrivialSpace)]"

definition example_slh :: "(complex, nat) slh" where
  "example_slh = \<lparr>slh_local_factors = [0], slh_cdim = 1, slh_S = [[1]],
     slh_L = [ScalarTimesOperator 2 (Destroy 0)]\<rparr>"

text \<open>The result of the call on this model, with \<open>chi\<close> for the entry of \<^verbatim>\<open>A_kerr\<close>.\<close>

definition example_result :: "complex \<Rightarrow> (complex, nat) model_matrices_result" where
  "example_result chi =
     \<lparr>mm_A = \<lparr>shape0 = 1, shape1 = 1, rows = [[- 1]]\<rparr>,
      mm_B = \<lparr>shape0 = 1, shape1 = 1, rows = [[4]]\<rparr>,
      mm_C = \<lparr>shape0 = 1, shape1 = 1, rows = [[2]]\<rparr>,
      mm_D = [[1]],
      mm_A_kerr = \<lparr>shape0 = 1, shape1 = 1, rows = [[chi]]\<rparr>,
      mm_B_input = \<lparr>shape0 = 1, shape1 = 1, rows = [[3]]\<rparr>,
      mm_D_input = \<lparr>shape0 = 1, shape1 = 1, rows = [[1]]\<rparr>,
      mm_u_c = [0], mm_U_c = [0], mm_extras = None\<rparr>"

text \<open>The same call when \<open>epsilon = 10\<close> exceeds every coefficient of the equation of motion.\<close>

definition example_result_truncated :: "(complex, nat) model_matrices_result" where
  "example_result_truncated =
     \<lparr>mm_A = \<lparr>shape0 = 1, shape1 = 1, rows = [[0]]\<rparr>,
      mm_B = \<lparr>shape0 = 1, shape1 = 1, rows = [[0]]\<rparr>,
      mm_C = \<lparr>shape0 = 1, shape1 = 1, rows = [[2]]\<rparr>,
      mm_D = [[1]],
      mm_A_kerr = \<lparr>shape0 = 1, shape1 = 1, rows = [[0]]\<rparr>,
      mm_B_input = \<lparr>shape0 = 1, shape1 = 1, rows = [[0]]\<rparr>,
      mm_D_input = \<lparr>shape0 = 1, shape1 = 1, rows = [[1]]\<rparr>,
      mm_u_c = [0], mm_U_c = [0], mm_extras = None\<rparr>"

section \<open>Properties of the coefficient map builder\<close>

lemma coeff_sum_Nil [simp]: "coeff_sum t [] = 0"
  by (simp add: coeff_sum_def)

lemma coeff_sum_Cons:
  "coeff_sum t (e # es) =
     (if addend_term e = t then addend_coeff e + coeff_sum t es else coeff_sum t es)"
  by (simp add: coeff_sum_def)


lemma coeff_sum_absent: "t \<notin> addend_term ` set es \<Longrightarrow> coeff_sum t es = 0"
  by (induction es) (auto simp: coeff_sum_Cons)

text \<open>
  The loop, started from any map: a term carried by a kept addend ends with the old entry
  plus the coefficients of the kept addends that carry it; every other key is untouched.
\<close>

lemma get_coeffs_loop_lookup:
  "get_coeffs_loop eng epsilon es ret t =
     (if t \<in> addend_term ` set (filter (kept eng epsilon) es)
      then Some (getitem ret t + coeff_sum t (filter (kept eng epsilon) es))
      else ret t)"
proof (induction es arbitrary: ret)
  case Nil
  show ?case by simp
next
  case (Cons e es)
  obtain c u where cu: "coeff_term e = (c, u)" by (cases "coeff_term e")
  show ?case
  proof (cases "below_epsilon eng epsilon c")
    case True
    then have "\<not> kept eng epsilon e" by (simp add: kept_def addend_coeff_def cu)
    with True show ?thesis by (simp add: cu Cons.IH)
  next
    case False
    then have k: "kept eng epsilon e" by (simp add: kept_def addend_coeff_def cu)
    have ut: "addend_term e = u" and uc: "addend_coeff e = c"
      by (simp_all add: addend_term_def addend_coeff_def cu)
    show ?thesis
      using False k
      by (auto simp: cu Cons.IH ut uc coeff_sum_Cons getitem_def add.assoc coeff_sum_absent
               split: option.splits)
  qed
qed

lemma get_coeffs_lookup:
  "get_coeffs eng e False epsilon t =
     (if t \<in> addend_term ` set (filter (kept eng epsilon) (operands_of e))
      then Some (coeff_sum t (filter (kept eng epsilon) (operands_of e)))
      else None)"
  by (simp add: get_coeffs_def get_coeffs_loop_lookup getitem_def)

lemma getitem_get_coeffs:
  "getitem (get_coeffs eng e False epsilon) t =
     coeff_sum t (filter (kept eng epsilon) (operands_of e))"
  by (simp add: getitem_def get_coeffs_lookup coeff_sum_absent)

lemma kept_nonpos: "epsilon \<le> 0 \<Longrightarrow> kept eng epsilon e"
  by (auto simp: kept_def below_epsilon_def split: option.splits dest: order_less_le_trans)

lemma filter_kept_nonpos: "epsilon \<le> 0 \<Longrightarrow> filter (kept eng epsilon) es = es"
  by (simp add: kept_nonpos)

lemma get_coeffs_lookup_expand:
  "get_coeffs eng e expand epsilon t =
     (let es = operands_of (if expand then op_expand eng e else e) in
      if t \<in> addend_term ` set (filter (kept eng epsilon) es)
      then Some (coeff_sum t (filter (kept eng epsilon) es))
      else None)"
  by (simp add: get_coeffs_def get_coeffs_loop_lookup getitem_def Let_def)

lemma coeff_sum_single:
  "filter (\<lambda>x. addend_term x = t) es = [a] \<Longrightarrow> coeff_sum t es = addend_coeff a"
  by (simp add: coeff_sum_def)

lemma filter_single_mem:
  "filter P es = [a] \<Longrightarrow> a \<in> set es \<and> P a"
proof -
  assume "filter P es = [a]"
  then have "a \<in> set (filter P es)" by simp
  then show ?thesis by simp
qed

lemma filter_empty_notin:
  "filter (\<lambda>x. addend_term x = t) es = [] \<Longrightarrow> t \<notin> addend_term ` set es"
  by (auto simp: filter_empty_conv)

text \<open>
  Claim C3, as amended. \<^verbatim>\<open>get_coeffs\<close> skips exactly the addends whose coefficient coerces
  to a complex number of magnitude strictly below \<open>epsilon\<close>, and the resulting map is the
  accumulation of the remaining addends: a term is a key iff a kept addend carries it, and
  its entry is the sum of the coefficients of the kept addends that carry it. So a term
  carried by exactly one kept addend is stored with that addend's exact coefficient, and a
  term none of whose addends is kept is not stored and reads as the default zero. For
  \<open>epsilon = 0\<close> every addend is kept, also one with the numeric coefficient zero, whose
  term is then an explicit key.
\<close>

theorem get_coeffs_truncation:
  "(kept eng epsilon a \<longleftrightarrow>
      \<not> (\<exists>z. to_complex eng (addend_coeff a) = Some z \<and> cmod z < epsilon))
   \<and> get_coeffs eng e False epsilon t =
       (if t \<in> addend_term ` set (filter (kept eng epsilon) (operands_of e))
        then Some (coeff_sum t (filter (kept eng epsilon) (operands_of e)))
        else None)
   \<and> (filter (\<lambda>x. addend_term x = t) (filter (kept eng epsilon) (operands_of e)) = [a]
        \<longrightarrow> get_coeffs eng e False epsilon t = Some (addend_coeff a))
   \<and> (filter (\<lambda>x. addend_term x = t) (filter (kept eng epsilon) (operands_of e)) = []
        \<longrightarrow> get_coeffs eng e False epsilon t = None
            \<and> getitem (get_coeffs eng e False epsilon) t = 0)
   \<and> (epsilon = 0 \<longrightarrow> filter (kept eng epsilon) (operands_of e) = operands_of e)"
proof (intro conjI impI)
  show "kept eng epsilon a \<longleftrightarrow>
      \<not> (\<exists>z. to_complex eng (addend_coeff a) = Some z \<and> cmod z < epsilon)"
    by (auto simp: kept_def below_epsilon_def split: option.splits)
next
  show "get_coeffs eng e False epsilon t =
       (if t \<in> addend_term ` set (filter (kept eng epsilon) (operands_of e))
        then Some (coeff_sum t (filter (kept eng epsilon) (operands_of e)))
        else None)"
    by (rule get_coeffs_lookup)
next
  assume h: "filter (\<lambda>x. addend_term x = t) (filter (kept eng epsilon) (operands_of e)) = [a]"
  from filter_single_mem [OF h]
  have "t \<in> addend_term ` set (filter (kept eng epsilon) (operands_of e))" by force
  then show "get_coeffs eng e False epsilon t = Some (addend_coeff a)"
    by (simp add: get_coeffs_lookup coeff_sum_single [OF h])
next
  assume h: "filter (\<lambda>x. addend_term x = t) (filter (kept eng epsilon) (operands_of e)) = []"
  from filter_empty_notin [OF h]
  show "get_coeffs eng e False epsilon t = None"
    by (simp add: get_coeffs_lookup)
  then show "getitem (get_coeffs eng e False epsilon) t = 0"
    by (simp add: getitem_def)
next
  assume "epsilon = 0"
  then show "filter (kept eng epsilon) (operands_of e) = operands_of e"
    by (simp add: filter_kept_nonpos)
qed

lemmas example_defs = kept_def below_epsilon_def numeric_engine_def mock_engine_def addend_coeff_def addend_term_def norm_divide

text \<open>
  The theorem at three inputs: a coefficient \<open>5\<close> kept under \<open>epsilon = 1\<close>, a coefficient
  \<open>1/2\<close> dropped under \<open>epsilon = 1\<close>, and an exact zero kept under \<open>epsilon = 0\<close>.
\<close>

theorem get_coeffs_truncation_witness:
  "get_coeffs (numeric_engine Destroy)
     (OperatorPlus [ScalarTimesOperator (1 / 2) (Destroy 0), ScalarTimesOperator 5 (Create 0)])
     False 1 (Create 0) = Some 5
   \<and> get_coeffs (numeric_engine Destroy)
     (OperatorPlus [ScalarTimesOperator (1 / 2) (Destroy 0), ScalarTimesOperator 5 (Create 0)])
     False 1 (Destroy 0) = None
   \<and> get_coeffs (numeric_engine Destroy)
     (OperatorPlus [ScalarTimesOperator 0 (Destroy 0), ScalarTimesOperator (1 / 2) (Create 0)])
     False 0 (Destroy 0) = Some 0"
proof (intro conjI)
  let ?E = "numeric_engine Destroy :: (complex, nat) engine"
  let ?e = "OperatorPlus [ScalarTimesOperator (1 / 2) (Destroy 0), ScalarTimesOperator 5 (Create 0)]
              :: (complex, nat) operator"
  let ?ez = "OperatorPlus [ScalarTimesOperator 0 (Destroy 0), ScalarTimesOperator (1 / 2) (Create 0)]
              :: (complex, nat) operator"
  have 1: "filter (\<lambda>x. addend_term x = Create 0) (filter (kept ?E 1) (operands_of ?e))
             = [ScalarTimesOperator 5 (Create 0)]"
    by (simp add: example_defs)
  from get_coeffs_truncation [of ?E 1 "ScalarTimesOperator 5 (Create 0)" ?e "Create 0",
      THEN conjunct2, THEN conjunct2, THEN conjunct1, THEN mp, OF 1]
  show "get_coeffs ?E ?e False 1 (Create 0) = Some 5"
    by (simp add: addend_coeff_def)
  have 2: "filter (\<lambda>x. addend_term x = Destroy 0) (filter (kept ?E 1) (operands_of ?e)) = []"
    by (simp add: example_defs)
  from get_coeffs_truncation [of ?E 1 "ScalarTimesOperator 5 (Create 0)" ?e "Destroy 0",
      THEN conjunct2, THEN conjunct2, THEN conjunct2, THEN conjunct1, THEN mp, OF 2]
  show "get_coeffs ?E ?e False 1 (Destroy 0) = None"
    by (rule conjunct1)
  have 3: "filter (\<lambda>x. addend_term x = Destroy 0) (filter (kept ?E 0) (operands_of ?ez))
             = [ScalarTimesOperator 0 (Destroy 0)]"
    by (simp add: example_defs)
  from get_coeffs_truncation [of ?E 0 "ScalarTimesOperator 0 (Destroy 0)" ?ez "Destroy 0",
      THEN conjunct2, THEN conjunct2, THEN conjunct1, THEN mp, OF 3]
  show "get_coeffs ?E ?ez False 0 (Destroy 0) = Some 0"
    by (simp add: addend_coeff_def)
qed

text \<open>
  Claim C3 as stated fails when a term occurs in several addends: under \<open>epsilon = 1\<close> the
  addend \<open>1/2 \<cdot> a\<close> is dropped and \<open>5 \<cdot> a\<close> is kept, yet the term \<open>a\<close> of the dropped addend
  does not read as zero and the kept addend is not stored with its own coefficient \<open>5\<close>:
  the entry is \<open>5 + 3\<close>.
\<close>

theorem get_coeffs_truncation_counterexample:
  "to_complex (numeric_engine Destroy) (1 / 2) = Some (1 / 2) \<and> cmod (1 / 2) < 1
   \<and> to_complex (numeric_engine Destroy) 5 = Some 5 \<and> 1 \<le> cmod 5
   \<and> getitem (get_coeffs (numeric_engine Destroy)
        (OperatorPlus [ScalarTimesOperator (1 / 2) (Destroy 0), ScalarTimesOperator 5 (Destroy 0),
                       ScalarTimesOperator 3 (Destroy 0)]) False 1) (Destroy 0) \<noteq> 0
   \<and> get_coeffs (numeric_engine Destroy)
        (OperatorPlus [ScalarTimesOperator (1 / 2) (Destroy 0), ScalarTimesOperator 5 (Destroy 0),
                       ScalarTimesOperator 3 (Destroy 0)]) False 1 (Destroy 0) \<noteq> Some 5"
  by (simp add: get_coeffs_def getitem_def example_defs)






















text \<open>
  Claim C5. For every \<open>epsilon\<close>, an addend whose coefficient does not coerce to a complex
  number is kept: its term is a key of the resulting map and the entry is the sum over the
  kept addends that carry the term. The failed coercion is the \<open>None\<close> branch of the guard,
  after which the function goes on to accumulate; \<^verbatim>\<open>get_coeffs\<close> has no error result.
\<close>

theorem get_coeffs_keeps_symbolic:
  "a \<in> set (operands_of (if expand then op_expand eng e else e)) \<Longrightarrow>
   to_complex eng (addend_coeff a) = None \<Longrightarrow>
   kept eng epsilon a
   \<and> (\<exists>c. get_coeffs eng e expand epsilon (addend_term a) = Some c)
   \<and> getitem (get_coeffs eng e expand epsilon) (addend_term a) =
       sum_list (map addend_coeff (filter (\<lambda>x. addend_term x = addend_term a)
         (filter (kept eng epsilon) (operands_of (if expand then op_expand eng e else e)))))"
proof -
  assume m: "a \<in> set (operands_of (if expand then op_expand eng e else e))"
    and n: "to_complex eng (addend_coeff a) = None"
  have k: "kept eng epsilon a" using n by (simp add: kept_def below_epsilon_def)
  with m have i: "addend_term a \<in> addend_term ` set (filter (kept eng epsilon)
      (operands_of (if expand then op_expand eng e else e)))"
    by auto
  show ?thesis using k i
    by (simp add: get_coeffs_lookup_expand Let_def getitem_def coeff_sum_def del: set_filter)
qed

theorem get_coeffs_keeps_symbolic_witness:
  "to_complex symbolic_engine (SymScalar (1 / 2) {#''kappa''#}) = None
   \<and> kept symbolic_engine 1
        (ScalarTimesOperator (SymScalar (1 / 2) {#''kappa''#}) (Destroy 0))
   \<and> get_coeffs symbolic_engine
        (OperatorPlus [ScalarTimesOperator (SymScalar (1 / 2) {#''kappa''#}) (Destroy 0),
                       ScalarTimesOperator (SymScalar (1 / 2) {#}) (Create 0)])
        False 1 (Destroy 0) = Some (SymScalar (1 / 2) {#''kappa''#})
   \<and> get_coeffs symbolic_engine
        (OperatorPlus [ScalarTimesOperator (SymScalar (1 / 2) {#''kappa''#}) (Destroy 0),
                       ScalarTimesOperator (SymScalar (1 / 2) {#}) (Create 0)])
        False 1 (Create 0) = None"
proof -
  let ?a = "ScalarTimesOperator (SymScalar (1 / 2) {#''kappa''#}) (Destroy 0) :: (symscalar, nat) operator"
  let ?e = "OperatorPlus [?a, ScalarTimesOperator (SymScalar (1 / 2) {#}) (Create 0)]"
  have m: "?a \<in> set (operands_of (if False then op_expand symbolic_engine ?e else ?e))" by simp
  have n: "to_complex symbolic_engine (addend_coeff ?a) = None"
    by (simp add: symbolic_engine_def mock_engine_def addend_coeff_def)
  from get_coeffs_keeps_symbolic [OF m n, of 1]
  have k: "kept symbolic_engine 1 ?a" by (rule conjunct1)
  have r: "get_coeffs symbolic_engine ?e False 1 (Destroy 0) = Some (SymScalar (1 / 2) {#''kappa''#})
     \<and> get_coeffs symbolic_engine ?e False 1 (Create 0) = None"
    by (simp add: get_coeffs_def getitem_def symbolic_engine_def mock_engine_def
        below_epsilon_def norm_divide zero_symscalar_def)
  have t: "to_complex symbolic_engine (SymScalar (1 / 2) {#''kappa''#}) = None"
    by (simp add: symbolic_engine_def mock_engine_def)
  from k r t show ?thesis by blast
qed


section \<open>Properties of the SDE function builder\<close>


lemma sum_list_map2_mult:
  fixes xs ys :: "complex list"
  assumes "length xs = n" "length ys = n"
  shows "sum_list (map2 (*) xs ys) = (\<Sum>k<n. xs ! k * ys ! k)"
proof -
  have "sum_list (map2 (*) xs ys) = (\<Sum>k = 0..<length (map2 (*) xs ys). map2 (*) xs ys ! k)"
    by (rule sum_list_sum_nth)
  also have "\<dots> = (\<Sum>k = 0..<n. xs ! k * ys ! k)"
    using assms by (intro sum.cong) auto
  finally show ?thesis by (simp add: atLeast0LessThan)
qed

lemma has_shape_row:
  "has_shape m n k \<Longrightarrow> j < n \<Longrightarrow> length (rows m ! j) = k"
  by (auto simp: has_shape_def list_all_length)

lemma dot_Inr:
  assumes "has_shape m n k" "length v = k"
  shows "dot m v = Inr (map (\<lambda>row. \<Sum>i<k. row ! i * v ! i) (rows m))"
proof -
  have "map (\<lambda>row. sum_list (map2 (*) row v)) (rows m) = map (\<lambda>row. \<Sum>i<k. row ! i * v ! i) (rows m)"
    using assms by (intro map_cong refl sum_list_map2_mult) (auto simp: has_shape_def list_all_iff)
  with assms show ?thesis by (simp add: dot_def has_shape_def)
qed

lemma broadcast_same:
  "length x = length y \<Longrightarrow> broadcast f x y = Inr (map2 f x y)"
  by (simp add: broadcast_def)

text \<open>
  Claim C1. For numeric model matrices of the shapes that \<^verbatim>\<open>model_matrices\<close> produces, a state
  \<open>a\<close> of length \<open>ncav\<close> and an input \<open>input_fn t\<close> of length \<open>ninputs\<close>, the drift closure
  returns a vector of length \<open>ncav\<close> whose entry \<open>j\<close> is
  \<open>(A a)\<^sub>j - 2\<i> (A_kerr (conj a \<odot> a))\<^sub>j a\<^sub>j + u_c\<^sub>j + (B_input (input_fn t))\<^sub>j\<close>: the two
  matrix-vector products are sums over the columns, and the Kerr vector is multiplied with
  the state entry by entry.
\<close>

theorem prepare_sde_drift:
  assumes A: "has_shape (nm_A nm) ncav ncav"
    and K: "has_shape (nm_A_kerr nm) ncav ncav"
    and I: "has_shape (nm_B_input nm) ncav ninputs"
    and u: "length (ravel (nm_u_c nm)) = ncav"
    and a: "length a = ncav"
    and f: "length (input_fn t) = ninputs"
  shows "\<exists>v. fst (prepare_sde nm input_fn) a t = Inr v \<and> length v = ncav \<and>
           (\<forall>j<ncav. v ! j =
              (\<Sum>k<ncav. rows (nm_A nm) ! j ! k * a ! k)
              - 2 * \<i> * (\<Sum>k<ncav. rows (nm_A_kerr nm) ! j ! k * (cnj (a ! k) * a ! k)) * a ! j
              + ravel (nm_u_c nm) ! j
              + (\<Sum>m<ninputs. rows (nm_B_input nm) ! j ! m * input_fn t ! m))"
proof -
  let ?n = "map2 (*) (map cnj a) a"
  let ?Aa = "map (\<lambda>row. \<Sum>i<ncav. row ! i * a ! i) (rows (nm_A nm))"
  let ?k = "map (\<lambda>row. \<Sum>i<ncav. row ! i * ?n ! i) (rows (nm_A_kerr nm))"
  let ?ka = "map2 (*) (map ((*) (2 * \<i>)) ?k) a"
  let ?d = "map2 (-) ?Aa ?ka"
  let ?du = "map2 (+) ?d (ravel (nm_u_c nm))"
  let ?Bu = "map (\<lambda>row. \<Sum>i<ninputs. row ! i * input_fn t ! i) (rows (nm_B_input nm))"
  let ?v = "map2 (+) ?du ?Bu"
  have lA: "length (rows (nm_A nm)) = ncav" and lK: "length (rows (nm_A_kerr nm)) = ncav"
    and lI: "length (rows (nm_B_input nm)) = ncav"
    using A K I by (simp_all add: has_shape_def)
  have ln: "length ?n = ncav" using a by simp
  have 1: "dot (nm_A nm) a = Inr ?Aa" by (rule dot_Inr [OF A a])
  have 2: "broadcast (*) (map cnj a) a = Inr ?n" by (simp add: broadcast_same)
  have 3: "dot (nm_A_kerr nm) ?n = Inr ?k" by (rule dot_Inr [OF K ln])
  have 4: "broadcast (*) (map ((*) (2 * \<i>)) ?k) a = Inr ?ka"
    using a lK by (simp add: broadcast_same)
  have 5: "broadcast (-) ?Aa ?ka = Inr ?d"
    using a lK lA by (simp add: broadcast_same)
  have 6: "broadcast (+) ?d (ravel (nm_u_c nm)) = Inr ?du"
    using a lK lA u by (simp add: broadcast_same)
  have 7: "dot (nm_B_input nm) (input_fn t) = Inr ?Bu" by (rule dot_Inr [OF I f])
  have 8: "broadcast (+) ?du ?Bu = Inr ?v"
    using a lK lA lI u by (simp add: broadcast_same)
  have r: "fst (prepare_sde nm input_fn) a t = Inr ?v"
    unfolding prepare_sde_def sde_f_def Let_def fst_conv
    by (simp only: 1 2 3 4 5 6 7 8 ebind_def sum.case)
  have len: "length ?v = ncav" using a lK lA lI u by simp
  have ent: "?v ! j =
              (\<Sum>k<ncav. rows (nm_A nm) ! j ! k * a ! k)
              - 2 * \<i> * (\<Sum>k<ncav. rows (nm_A_kerr nm) ! j ! k * (cnj (a ! k) * a ! k)) * a ! j
              + ravel (nm_u_c nm) ! j
              + (\<Sum>m<ninputs. rows (nm_B_input nm) ! j ! m * input_fn t ! m)" if j: "j < ncav" for j
  proof -
    have "(\<Sum>i<ncav. rows (nm_A_kerr nm) ! j ! i * ?n ! i)
        = (\<Sum>k<ncav. rows (nm_A_kerr nm) ! j ! k * (cnj (a ! k) * a ! k))"
      using a by (intro sum.cong refl) simp
    then show ?thesis using j a lK lA lI u by simp
  qed
  from r len ent show ?thesis by blast
qed

text \<open>One mode and one input: \<open>A = 1\<close>, \<open>A_kerr = 2\<close>, \<open>B_input = 3\<close>, \<open>u_c = 4\<close>, state \<open>\<i>\<close>, input \<open>5\<close>.\<close>

theorem prepare_sde_drift_witness:
  "has_shape (nm_A example_matrices) 1 1 \<and> has_shape (nm_A_kerr example_matrices) 1 1
   \<and> has_shape (nm_B_input example_matrices) 1 1
   \<and> length (ravel (nm_u_c example_matrices)) = 1
   \<and> fst (prepare_sde example_matrices (\<lambda>t. [5])) [\<i>] 0 = Inr [23 + \<i>]"
proof -
  let ?nm = example_matrices
  have A: "has_shape (nm_A ?nm) 1 1" and K: "has_shape (nm_A_kerr ?nm) 1 1"
    and I: "has_shape (nm_B_input ?nm) 1 1" and u: "length (ravel (nm_u_c ?nm)) = 1"
    by (simp_all add: example_matrices_def has_shape_def)
  have a: "length [\<i>] = 1" and f: "length ((\<lambda>t::real. [5::complex]) 0) = 1" by simp_all
  from prepare_sde_drift [OF A K I u a f]
  obtain v where v: "fst (prepare_sde ?nm (\<lambda>t. [5])) [\<i>] 0 = Inr v" "length v = 1"
    and e: "\<forall>j<1. v ! j =
              (\<Sum>k<1. rows (nm_A ?nm) ! j ! k * [\<i>] ! k)
              - 2 * \<i> * (\<Sum>k<1. rows (nm_A_kerr ?nm) ! j ! k * (cnj ([\<i>] ! k) * [\<i>] ! k)) * [\<i>] ! j
              + ravel (nm_u_c ?nm) ! j
              + (\<Sum>m<1. rows (nm_B_input ?nm) ! j ! m * [5] ! m)"
    by blast
  from e have "v ! 0 = 23 + \<i>"
    by (simp add: example_matrices_def algebra_simps)
  with v have "v = [23 + \<i>]"
    by (cases v) auto
  with v A K I u show ?thesis by simp
qed

text \<open>
  Claim C6. The diffusion closure is constant: for every state and time it returns the
  array \<open>B / 2\<close> that \<^verbatim>\<open>prepare_sde\<close> computed once, of the shape of \<open>B\<close> and with every entry
  of \<open>B\<close> halved, and two calls with different arguments return the same array.
\<close>

theorem prepare_sde_diffusion:
  "snd (prepare_sde nm input_fn) a t = array_div (nm_B nm) 2
   \<and> snd (prepare_sde nm input_fn) a t = snd (prepare_sde nm input_fn) a' t'
   \<and> shape0 (snd (prepare_sde nm input_fn) a t) = shape0 (nm_B nm)
   \<and> shape1 (snd (prepare_sde nm input_fn) a t) = shape1 (nm_B nm)
   \<and> rows (snd (prepare_sde nm input_fn) a t) = map (map (\<lambda>z. z / 2)) (rows (nm_B nm))"
  by (simp add: prepare_sde_def sde_g_def array_div_def Let_def)


section \<open>Loops over arrays\<close>

lemma ebind_Inr [simp]: "ebind (Inr x) f = f x"
  by (simp add: ebind_def)

lemma ebind_Inl [simp]: "ebind (Inl e) f = Inl e"
  by (simp add: ebind_def)

lemma ebind_eq_Inr: "ebind m f = Inr y \<longleftrightarrow> (\<exists>x. m = Inr x \<and> f x = Inr y)"
  by (cases m) simp_all

text \<open>
  A loop over \<^verbatim>\<open>enumerate(xs)\<close> whose round \<open>k\<close> takes the state \<open>F k\<close> to \<open>F (k + 1)\<close> without
  raising ends in \<open>F (len xs)\<close>.
\<close>

lemma for_each_steps_from:
  assumes "\<And>k. k < length xs \<Longrightarrow> f (k, xs ! k) (F k) = Inr (F (Suc k))"
  shows "n \<le> length xs \<Longrightarrow> for_each f (enumerate n (drop n xs)) (F n) = Inr (F (length xs))"
proof (induction "length xs - n" arbitrary: n)
  case 0
  then show ?case by simp
next
  case (Suc d)
  then have n: "n < length xs" by simp
  then have dr: "drop n xs = xs ! n # drop (Suc n) xs" by (simp add: Cons_nth_drop_Suc)
  have "for_each f (enumerate (Suc n) (drop (Suc n) xs)) (F (Suc n)) = Inr (F (length xs))"
    using Suc n by (intro Suc.hyps(1)) simp_all
  then show ?case using assms [OF n] by (simp add: dr)
qed

lemma for_each_steps:
  assumes "\<And>k. k < length xs \<Longrightarrow> f (k, xs ! k) (F k) = Inr (F (Suc k))"
  shows "for_each f (enumerate 0 xs) (F 0) = Inr (F (length xs))"
  using for_each_steps_from [where f = f and F = F and xs = xs and n = 0, OF assms] by simp

text \<open>
  Invariants of a loop: kept by every returning run, enough for the loop to return, and
  a relation between two runs of the same loop from related states.
\<close>

lemma for_each_preserves:
  assumes "\<And>x st st'. x \<in> set xs \<Longrightarrow> P st \<Longrightarrow> f x st = Inr st' \<Longrightarrow> P st'"
  shows "P st \<Longrightarrow> for_each f xs st = Inr st' \<Longrightarrow> P st'"
  using assms
proof (induction xs arbitrary: st)
  case Nil
  then show ?case by simp
next
  case (Cons x xs)
  from Cons.prems(2) obtain s1 where s1: "f x st = Inr s1" and r: "for_each f xs s1 = Inr st'"
    by (auto split: sum.splits)
  have "P s1" using Cons.prems(1,3) s1 by auto
  then show ?case using Cons.IH [OF _ r] Cons.prems(3) by auto
qed

lemma for_each_succeeds:
  assumes "\<And>x st. x \<in> set xs \<Longrightarrow> P st \<Longrightarrow> \<exists>st'. f x st = Inr st' \<and> P st'"
  shows "P st \<Longrightarrow> \<exists>st'. for_each f xs st = Inr st' \<and> P st'"
  using assms
proof (induction xs arbitrary: st)
  case Nil
  then show ?case by simp
next
  case (Cons x xs)
  from Cons.prems obtain s1 where s1: "f x st = Inr s1" "P s1" by (meson list.set_intros(1))
  from Cons.IH [OF s1(2)] Cons.prems(2) obtain s2 where "for_each f xs s1 = Inr s2" "P s2"
    by (meson list.set_intros(2))
  with s1 show ?case by simp
qed

lemma for_each_rel:
  assumes "\<And>x s s'. x \<in> set xs \<Longrightarrow> R s s' \<Longrightarrow> rel_sum (=) R (f x s) (f x s')"
  shows "R s s' \<Longrightarrow> rel_sum (=) R (for_each f xs s) (for_each f xs s')"
  using assms
proof (induction xs arbitrary: s s')
  case Nil
  then show ?case by simp
next
  case (Cons x xs)
  have h: "rel_sum (=) R (f x s) (f x s')" using Cons.prems by simp
  show ?case
  proof (cases "f x s")
    case (Inl e)
    with h show ?thesis by (cases "f x s'") simp_all
  next
    case (Inr t)
    with h obtain t' where t': "f x s' = Inr t'" "R t t'" by (cases "f x s'") simp_all
    from Cons.IH [OF t'(2)] Cons.prems(2) have "rel_sum (=) R (for_each f xs t) (for_each f xs t')"
      by simp
    with Inr t' show ?thesis by simp
  qed
qed

lemma enumerate_mem: "(k, x) \<in> set (enumerate 0 xs) \<Longrightarrow> k < length xs"
  by (auto simp: in_set_enumerate_eq)

text \<open>Filling one row of an array, entry by entry.\<close>

lemma fill_row_step:
  assumes "c < length row" "c < length xs" "v = g (xs ! c)"
  shows "(map g (take c xs) @ drop c row)[c := v] = map g (take (Suc c) xs) @ drop (Suc c) row"
proof -
  have "drop c row = row ! c # drop (Suc c) row" using assms by (simp add: Cons_nth_drop_Suc)
  then show ?thesis using assms by (simp add: list_update_append take_Suc_conv_app_nth)
qed

lemma field_row_loop:
  fixes get :: "'r \<Rightarrow> 'a ndarray2" and put :: "'a ndarray2 \<Rightarrow> 'r \<Rightarrow> 'r"
  assumes gp: "\<And>b r. get (put b r) = b"
    and pp: "\<And>b c r. put b (put c r) = put b r"
    and pg: "\<And>r. put (get r) r = r"
    and body: "\<And>kk x r. body (kk, x) r = ebind (setitem2 (get r) i kk (g x)) (\<lambda>b. Inr (put b r))"
    and i: "i < shape0 (get r)" "i < length (rows (get r))"
    and len: "length (rows (get r) ! i) = length xs" "shape1 (get r) = length xs"
  shows "for_each body (enumerate 0 xs) r =
           Inr (put ((get r)\<lparr>rows := (rows (get r))[i := map g xs]\<rparr>) r)"
proof -
  define F where "F c = put ((get r)\<lparr>rows := (rows (get r))[i := map g (take c xs) @ drop c (rows (get r) ! i)]\<rparr>) r" for c
  have step: "body (k, xs ! k) (F k) = Inr (F (Suc k))" if k: "k < length xs" for k
    using k i len
    by (simp add: body F_def gp pp setitem2_def fill_row_step)
  have "F 0 = r" by (simp add: F_def pg)
  moreover have "F (length xs) = put ((get r)\<lparr>rows := (rows (get r))[i := map g xs]\<rparr>) r"
    using len by (simp add: F_def)
  ultimately show ?thesis using for_each_steps [of xs body F, OF step] by simp
qed


lemma mode_loop:
  fixes r :: "('s::field, 'm) model_matrices_result"
  assumes a: "jj < shape0 (mm_A r)" "jj < length (rows (mm_A r))"
      "length (rows (mm_A r) ! jj) = length modes" "shape1 (mm_A r) = length modes"
    and k: "jj < shape0 (mm_A_kerr r)" "jj < length (rows (mm_A_kerr r))"
      "length (rows (mm_A_kerr r) ! jj) = length modes" "shape1 (mm_A_kerr r) = length modes"
  shows "for_each (mode_loop_body eng cf jj sjj) (enumerate 0 modes) r =
           Inr (r\<lparr>mm_A := (mm_A r)\<lparr>rows := (rows (mm_A r))
                          [jj := map (\<lambda>skk. getitem cf (Destroy skk)) modes]\<rparr>,
                  mm_A_kerr := (mm_A_kerr r)\<lparr>rows := (rows (mm_A_kerr r))
                          [jj := map (kerr_entry eng cf sjj) modes]\<rparr>\<rparr>)"
proof -
  define F where "F c = r\<lparr>mm_A := (mm_A r)\<lparr>rows := (rows (mm_A r))
        [jj := map (\<lambda>skk. getitem cf (Destroy skk)) (take c modes) @ drop c (rows (mm_A r) ! jj)]\<rparr>,
      mm_A_kerr := (mm_A_kerr r)\<lparr>rows := (rows (mm_A_kerr r))
        [jj := map (kerr_entry eng cf sjj) (take c modes) @ drop c (rows (mm_A_kerr r) ! jj)]\<rparr>\<rparr>" for c
  have step: "mode_loop_body eng cf jj sjj (c, modes ! c) (F c) = Inr (F (Suc c))"
    if c: "c < length modes" for c
    using c a k
    by (simp add: mode_loop_body_def F_def setitem2_def fill_row_step kerr_entry_def)
  have "F 0 = r" by (simp add: F_def)
  moreover have "F (length modes) = r\<lparr>mm_A := (mm_A r)\<lparr>rows := (rows (mm_A r))
                          [jj := map (\<lambda>skk. getitem cf (Destroy skk)) modes]\<rparr>,
                  mm_A_kerr := (mm_A_kerr r)\<lparr>rows := (rows (mm_A_kerr r))
                          [jj := map (kerr_entry eng cf sjj) modes]\<rparr>\<rparr>"
    using a k by (simp add: F_def)
  ultimately show ?thesis
    using for_each_steps [of modes "mode_loop_body eng cf jj sjj" F, OF step] by simp
qed

lemma noise_loop:
  assumes "jj < shape0 (mm_B r)" "jj < length (rows (mm_B r))"
      "length (rows (mm_B r) ! jj) = length noises" "shape1 (mm_B r) = length noises"
  shows "for_each (noise_loop_body cf jj) (enumerate 0 noises) r =
           Inr (r\<lparr>mm_B := (mm_B r)\<lparr>rows := (rows (mm_B r))[jj := map (getitem cf) noises]\<rparr>\<rparr>)"
  using assms
  by (intro field_row_loop [where get = mm_B and put = "\<lambda>b r. r\<lparr>mm_B := b\<rparr>"])
     (simp_all add: noise_loop_body_def)

lemma input_loop:
  assumes "jj < shape0 (mm_B_input r)" "jj < length (rows (mm_B_input r))"
      "length (rows (mm_B_input r) ! jj) = length inputs" "shape1 (mm_B_input r) = length inputs"
  shows "for_each (input_loop_body cf jj inputs) (enumerate 0 inputs) r =
           Inr (r\<lparr>mm_B_input := (mm_B_input r)\<lparr>rows := (rows (mm_B_input r))
                  [jj := map (getitem cf) inputs]\<rparr>\<rparr>)"
  using assms
  by (intro field_row_loop [where get = mm_B_input and put = "\<lambda>b r. r\<lparr>mm_B_input := b\<rparr>"])
     (simp_all add: input_loop_body_def list_eq_int_def)

text \<open>One round of the first loop nest writes row \<open>k\<close> of \<open>A\<close>, \<open>A_kerr\<close>, \<open>B\<close>, \<open>B_input\<close> and \<open>u_c[k]\<close>.\<close>

lemma rows_upto_simps [simp]:
  "shape0 (rows_upto n m f k) = n" "shape1 (rows_upto n m f k) = m"
  "k \<le> n \<Longrightarrow> length (rows (rows_upto n m f k)) = n"
  "k < n \<Longrightarrow> rows (rows_upto n m f k) ! k = replicate m 0"
  by (simp_all add: rows_upto_def nth_append)

lemma prefix_next:
  "k < n \<Longrightarrow> v = f k \<Longrightarrow>
     (map f [0..<k] @ replicate (n - k) z)[k := v] = map f [0..<Suc k] @ replicate (n - Suc k) z"
proof -
  assume k: "k < n" and v: "v = f k"
  then have "replicate (n - k) z = z # replicate (n - Suc k) z"
    by (metis Suc_diff_Suc replicate_Suc)
  then show ?thesis using v by (simp add: list_update_append)
qed

lemma rows_upto_next:
  "k < n \<Longrightarrow> v = f k \<Longrightarrow>
     (rows_upto n m f k)\<lparr>rows := (rows (rows_upto n m f k))[k := v]\<rparr> = rows_upto n m f (Suc k)"
  by (simp add: rows_upto_def prefix_next)

lemma mode_row_step:
  fixes r0 :: "('s::field, 'm) model_matrices_result"
  assumes k: "k < length modes" and e: "length eoms = length modes"
  shows "mode_row_body eng epsilon eoms modes noises inputs (k, modes ! k)
           (mode_rows_state eng epsilon eoms modes noises inputs r0 k) =
         Inr (mode_rows_state eng epsilon eoms modes noises inputs r0 (Suc k))"
proof -
  let ?S = "mode_rows_state eng epsilon eoms modes noises inputs r0"
  let ?cf = "get_coeffs eng (eoms ! k) False epsilon"
  have g: "list_getitem eoms k = Inr (eoms ! k)" using k e by (simp add: list_getitem_def)
  have 1: "for_each (mode_loop_body eng ?cf k (modes ! k)) (enumerate 0 modes) (?S k) =
      Inr ((?S k)\<lparr>mm_A := (mm_A (?S k))\<lparr>rows := (rows (mm_A (?S k)))
                          [k := map (\<lambda>skk. getitem ?cf (Destroy skk)) modes]\<rparr>,
                  mm_A_kerr := (mm_A_kerr (?S k))\<lparr>rows := (rows (mm_A_kerr (?S k)))
                          [k := map (kerr_entry eng ?cf (modes ! k)) modes]\<rparr>\<rparr>)" (is "_ = Inr ?r1")
    using k by (intro mode_loop) (simp_all add: mode_rows_state_def)
  have 2: "for_each (noise_loop_body ?cf k) (enumerate 0 noises) ?r1 =
      Inr (?r1\<lparr>mm_B := (mm_B ?r1)\<lparr>rows := (rows (mm_B ?r1))[k := map (getitem ?cf) noises]\<rparr>\<rparr>)"
    (is "_ = Inr ?r2")
    using k by (intro noise_loop) (simp_all add: mode_rows_state_def)
  have 3: "for_each (input_loop_body ?cf k inputs) (enumerate 0 inputs) ?r2 =
      Inr (?r2\<lparr>mm_B_input := (mm_B_input ?r2)\<lparr>rows := (rows (mm_B_input ?r2))
                  [k := map (getitem ?cf) inputs]\<rparr>\<rparr>)"
    (is "_ = Inr ?r3")
    using k by (intro input_loop) (simp_all add: mode_rows_state_def)
  have 4: "setitem1 (mm_u_c ?r3) k (getitem ?cf IdentityOperator) =
      Inr ((mm_u_c ?r3)[k := getitem ?cf IdentityOperator])"
    using k by (simp add: setitem1_def mode_rows_state_def)
  have "mode_row_body eng epsilon eoms modes noises inputs (k, modes ! k) (?S k) =
      Inr (?r3\<lparr>mm_u_c := (mm_u_c ?r3)[k := getitem ?cf IdentityOperator]\<rparr>)"
    unfolding mode_row_body_def by (simp only: prod.case g ebind_Inr Let_def 1 2 3 4)
  also have "?r3\<lparr>mm_u_c := (mm_u_c ?r3)[k := getitem ?cf IdentityOperator]\<rparr> = ?S (Suc k)"
    using k by (simp add: mode_rows_state_def rows_upto_next prefix_next del: upt_Suc)
  finally show ?thesis .
qed

lemma mode_rows_state_0:
  "mode_rows_state eng epsilon eoms modes noises inputs
     (mm_init slh (length modes) (length noises) (length inputs)) 0 =
   mm_init slh (length modes) (length noises) (length inputs)"
  by (simp add: mode_rows_state_def mm_init_def rows_upto_def zeros2_def zeros1_def)

lemma mode_rows_loop:
  assumes "length eoms = length modes"
  shows "for_each (mode_row_body eng epsilon eoms modes noises inputs) (enumerate 0 modes)
           (mm_init slh (length modes) (length noises) (length inputs)) =
         Inr (mode_rows_state eng epsilon eoms modes noises inputs
                (mm_init slh (length modes) (length noises) (length inputs)) (length modes))"
  using for_each_steps [of modes "mode_row_body eng epsilon eoms modes noises inputs"
      "mode_rows_state eng epsilon eoms modes noises inputs
         (mm_init slh (length modes) (length noises) (length inputs))",
      OF mode_row_step [OF _ assms]]
  by (simp add: mode_rows_state_0)


lemma length_mm_eoms [simp]: "length (mm_eoms eng slh_input modes noises) = length modes"
  by (simp add: mm_eoms_def)

lemma length_mm_noises [simp]: "length (mm_noises cdim) = cdim"
  by (simp add: mm_noises_def)

lemma length_mm_inputs [simp]: "length (mm_inputs dip) = length dip"
  by (simp add: mm_inputs_def)

text \<open>The second loop nest keeps what the first one wrote, and returns when \<open>L\<close> has at most \<open>cdim\<close> rows.\<close>

lemma setitem2_has_shape:
  "has_shape a n m \<Longrightarrow> setitem2 a i j v = Inr b \<Longrightarrow> has_shape b n m"
  by (auto simp: has_shape_def setitem2_def list_all_length nth_list_update split: if_splits)

lemma setitem2_succeeds:
  "has_shape a n m \<Longrightarrow> i < n \<Longrightarrow> j < m \<Longrightarrow> \<exists>b. setitem2 a i j v = Inr b"
  by (simp add: has_shape_def setitem2_def)

lemma output_mode_body_inv:
  "output_inv r0 cdim ncav ninputs r \<Longrightarrow> output_mode_body cf jj x r = Inr r' \<Longrightarrow>
     output_inv r0 cdim ncav ninputs r'"
  by (cases x) (auto simp: output_mode_body_def output_inv_def ebind_eq_Inr
        dest: setitem2_has_shape)

lemma output_input_body_inv:
  "output_inv r0 cdim ncav ninputs r \<Longrightarrow> output_input_body cf jj x r = Inr r' \<Longrightarrow>
     output_inv r0 cdim ncav ninputs r'"
  by (cases x) (auto simp: output_input_body_def output_inv_def ebind_eq_Inr
        dest: setitem2_has_shape)

lemma output_inv_U_c:
  "output_inv r0 cdim ncav ninputs r \<Longrightarrow> setitem1 (mm_U_c r) jj v = Inr u \<Longrightarrow>
     output_inv r0 cdim ncav ninputs (r\<lparr>mm_U_c := u\<rparr>)"
  by (auto simp: output_inv_def setitem1_def split: if_splits)

lemma output_row_body_inv:
  assumes "output_inv r0 cdim ncav ninputs r" "output_row_body eng modes inputs x r = Inr r'"
  shows "output_inv r0 cdim ncav ninputs r'"
proof -
  obtain jj Ljj where x: "x = (jj, Ljj)" by (cases x)
  let ?cf = "get_coeffs eng Ljj False 0"
  from assms(2) obtain r1 u where
    1: "for_each (output_mode_body ?cf jj) (enumerate 0 modes) r = Inr r1"
    and 2: "setitem1 (mm_U_c r1) jj (getitem ?cf IdentityOperator) = Inr u"
    and 3: "for_each (output_input_body ?cf jj) (enumerate 0 inputs) (r1\<lparr>mm_U_c := u\<rparr>) = Inr r'"
    by (auto simp: x output_row_body_def Let_def ebind_eq_Inr)
  have "output_inv r0 cdim ncav ninputs r1"
    by (rule for_each_preserves [where P = "output_inv r0 cdim ncav ninputs", OF _ assms(1) 1])
       (rule output_mode_body_inv)
  then have i2: "output_inv r0 cdim ncav ninputs (r1\<lparr>mm_U_c := u\<rparr>)"
    using 2 by (rule output_inv_U_c)
  show ?thesis
    by (rule for_each_preserves [where P = "output_inv r0 cdim ncav ninputs", OF _ i2 3])
       (rule output_input_body_inv)
qed

lemma output_rows_inv:
  "output_inv r0 cdim ncav ninputs r \<Longrightarrow>
   for_each (output_row_body eng modes inputs) xs r = Inr r' \<Longrightarrow>
   output_inv r0 cdim ncav ninputs r'"
  by (rule for_each_preserves [where P = "output_inv r0 cdim ncav ninputs"
        and f = "output_row_body eng modes inputs" and xs = xs and st = r])
     (auto intro: output_row_body_inv)

lemma output_row_body_succeeds:
  assumes inv: "output_inv r0 cdim (length modes) (length inputs) r" and jj: "jj < cdim"
  shows "\<exists>r'. output_row_body eng modes inputs (jj, Ljj) r = Inr r' \<and>
           output_inv r0 cdim (length modes) (length inputs) r'"
proof -
  let ?cf = "get_coeffs eng Ljj False 0"
  let ?I = "output_inv r0 cdim (length modes) (length inputs)"
  have m: "\<exists>st'. output_mode_body ?cf jj x st = Inr st' \<and> ?I st'"
    if "x \<in> set (enumerate 0 modes)" "?I st" for x st
  proof -
    obtain kk skk where x: "x = (kk, skk)" by (cases x)
    with that(1) have "kk < length modes" by (auto dest: enumerate_mem)
    with that(2) jj obtain b where "setitem2 (mm_C st) jj kk (getitem ?cf (Destroy skk)) = Inr b"
      using setitem2_succeeds [of "mm_C st" cdim "length modes" jj kk] by (auto simp: output_inv_def)
    then have "output_mode_body ?cf jj x st = Inr (st\<lparr>mm_C := b\<rparr>)"
      by (simp add: x output_mode_body_def)
    with that(2) show ?thesis using output_mode_body_inv by blast
  qed
  from for_each_succeeds [of "enumerate 0 modes" ?I "output_mode_body ?cf jj", OF m inv]
  obtain r1 where 1: "for_each (output_mode_body ?cf jj) (enumerate 0 modes) r = Inr r1" "?I r1"
    by blast
  have 2: "setitem1 (mm_U_c r1) jj (getitem ?cf IdentityOperator) =
             Inr ((mm_U_c r1)[jj := getitem ?cf IdentityOperator])" (is "_ = Inr ?u")
    using 1(2) jj by (simp add: setitem1_def output_inv_def)
  have i2: "?I (r1\<lparr>mm_U_c := ?u\<rparr>)" using 1(2) 2 by (rule output_inv_U_c)
  have d: "\<exists>st'. output_input_body ?cf jj x st = Inr st' \<and> ?I st'"
    if "x \<in> set (enumerate 0 inputs)" "?I st" for x st
  proof -
    obtain kk u_kk where x: "x = (kk, u_kk)" by (cases x)
    with that(1) have "kk < length inputs" by (auto dest: enumerate_mem)
    with that(2) jj obtain b where "setitem2 (mm_D_input st) jj kk (getitem ?cf u_kk) = Inr b"
      using setitem2_succeeds [of "mm_D_input st" cdim "length inputs" jj kk]
      by (auto simp: output_inv_def)
    then have "output_input_body ?cf jj x st = Inr (st\<lparr>mm_D_input := b\<rparr>)"
      by (simp add: x output_input_body_def)
    with that(2) show ?thesis using output_input_body_inv by blast
  qed
  from for_each_succeeds [of "enumerate 0 inputs" ?I "output_input_body ?cf jj", OF d i2]
  obtain r3 where 3: "for_each (output_input_body ?cf jj) (enumerate 0 inputs) (r1\<lparr>mm_U_c := ?u\<rparr>) = Inr r3"
    "?I r3" by blast
  have "output_row_body eng modes inputs (jj, Ljj) r = Inr r3"
    by (simp add: output_row_body_def Let_def 1 2 3)
  with 3(2) show ?thesis by blast
qed

lemma output_rows_succeed:
  assumes "output_inv r0 cdim (length modes) (length inputs) r" "length L \<le> cdim"
  shows "\<exists>r'. for_each (output_row_body eng modes inputs) (enumerate 0 L) r = Inr r' \<and>
           output_inv r0 cdim (length modes) (length inputs) r'"
proof (rule for_each_succeeds [where P = "output_inv r0 cdim (length modes) (length inputs)"])
  show "output_inv r0 cdim (length modes) (length inputs) r" by fact
next
  fix x st
  assume x: "x \<in> set (enumerate 0 L)" and st: "output_inv r0 cdim (length modes) (length inputs) st"
  obtain jj Ljj where xe: "x = (jj, Ljj)" by (cases x)
  with x assms(2) have "jj < cdim" by (auto dest: enumerate_mem)
  from output_row_body_succeeds [OF st this] show
    "\<exists>st'. output_row_body eng modes inputs x st = Inr st' \<and>
       output_inv r0 cdim (length modes) (length inputs) st'"
    by (simp add: xe)
qed


text \<open>Building \<^verbatim>\<open>inputs_extended\<close> returns when every port index is in range.\<close>

lemma list_setitem_succeeds:
  "- int (length xs) \<le> n \<Longrightarrow> n < int (length xs) \<Longrightarrow>
     \<exists>ys. list_setitem xs n v = Inr ys \<and> length ys = length xs"
  by (auto simp: list_setitem_def Let_def)

lemma mm_inputs_extended_succeeds:
  assumes "\<forall>n \<in> set (map fst dip). - int cdim \<le> n \<and> n < int cdim"
  shows "\<exists>ie :: ('s, 'm) operator option list.
           mm_inputs_extended cdim dip = Inr ie \<and> length ie = cdim"
  unfolding mm_inputs_extended_def
proof (rule for_each_succeeds [where P = "\<lambda>ie. length ie = cdim"])
  show "length (replicate cdim None) = cdim" by simp
next
  fix x :: "('s, 'm) operator \<times> int" and st :: "('s, 'm) operator option list"
  assume x: "x \<in> set (zip (mm_inputs dip) (sort (map fst dip)))" and st: "length st = cdim"
  obtain ii n where xe: "x = (ii, n)" by (cases x)
  with x have "n \<in> set (sort (map fst dip))" by (auto dest: set_zip_rightD)
  then have "- int cdim \<le> n \<and> n < int cdim" using assms by auto
  then show "\<exists>st'. (case x of (ii, n) \<Rightarrow> \<lambda>inputs_extended. list_setitem inputs_extended n (Some ii)) st
                = Inr st' \<and> length st' = cdim"
    using list_setitem_succeeds [of st n "Some ii"] st by (simp add: xe)
qed

text \<open>The call, with the first loop nest replaced by the state it ends in.\<close>

lemma model_matrices_unfold:
  "model_matrices eng slh dip flag epsilon return_eoms =
     ebind (mm_inputs_extended (slh_cdim slh) dip) (\<lambda>inputs_extended.
       ebind (for_each (output_row_body eng (mm_modes slh) (mm_inputs dip))
                (enumerate 0 (slh_L (mm_slh_input eng slh inputs_extended)))
                (mode_rows_state eng epsilon
                   (mm_eoms eng (mm_slh_input eng slh inputs_extended) (mm_modes slh)
                      (mm_noises (slh_cdim slh)))
                   (mm_modes slh) (mm_noises (slh_cdim slh)) (mm_inputs dip)
                   (mm_init slh (length (mm_modes slh)) (slh_cdim slh) (length dip))
                   (length (mm_modes slh)))) (\<lambda>r2.
       if return_eoms
       then Inr (r2\<lparr>mm_extras := Some
              (mm_eoms eng (mm_slh_input eng slh inputs_extended) (mm_modes slh)
                 (mm_noises (slh_cdim slh)),
               output_processes eng (mm_slh_input eng slh inputs_extended)
                 (mm_noises (slh_cdim slh)))\<rparr>)
       else Inr r2))"
proof -
  have "for_each (mode_row_body eng epsilon (mm_eoms eng si (mm_modes slh) (mm_noises (slh_cdim slh)))
            (mm_modes slh) (mm_noises (slh_cdim slh)) (mm_inputs dip))
          (enumerate 0 (mm_modes slh))
          (mm_init slh (length (mm_modes slh)) (slh_cdim slh) (length dip)) =
        Inr (mode_rows_state eng epsilon
               (mm_eoms eng si (mm_modes slh) (mm_noises (slh_cdim slh)))
               (mm_modes slh) (mm_noises (slh_cdim slh)) (mm_inputs dip)
               (mm_init slh (length (mm_modes slh)) (slh_cdim slh) (length dip))
               (length (mm_modes slh)))" for si
    using mode_rows_loop [of "mm_eoms eng si (mm_modes slh) (mm_noises (slh_cdim slh))"
        "mm_modes slh" eng epsilon "mm_noises (slh_cdim slh)" "mm_inputs dip" slh]
    by simp
  then show ?thesis by (simp add: model_matrices_def Let_def)
qed

section \<open>Properties of the model matrix assembler\<close>

lemma mode_rows_state_output_inv:
  "output_inv (mode_rows_state eng epsilon eoms modes noises inputs
       (mm_init slh (length modes) cdim ninputs) k) cdim (length modes) ninputs
     (mode_rows_state eng epsilon eoms modes noises inputs
       (mm_init slh (length modes) cdim ninputs) k)"
  by (simp add: output_inv_def mode_rows_state_def mm_init_def zeros2_def zeros1_def has_shape_def
      list_all_length)

text \<open>Every successful call: what the result holds.\<close>

lemma model_matrices_Inr:
  assumes "model_matrices eng slh dip flag epsilon return_eoms = Inr r"
  shows "\<exists>r2. output_inv
           (mode_rows_state eng epsilon (call_eoms eng slh dip) (mm_modes slh)
              (mm_noises (slh_cdim slh)) (mm_inputs dip)
              (mm_init slh (length (mm_modes slh)) (slh_cdim slh) (length dip))
              (length (mm_modes slh)))
           (slh_cdim slh) (length (mm_modes slh)) (length dip) r2 \<and>
         r = (if return_eoms
              then r2\<lparr>mm_extras := Some (call_eoms eng slh dip,
                     output_processes eng (call_slh_input eng slh dip) (mm_noises (slh_cdim slh)))\<rparr>
              else r2)"
proof -
  let ?loop = "\<lambda>ie. for_each (output_row_body eng (mm_modes slh) (mm_inputs dip))
                (enumerate 0 (slh_L (mm_slh_input eng slh ie)))
                (mode_rows_state eng epsilon
                   (mm_eoms eng (mm_slh_input eng slh ie) (mm_modes slh)
                      (mm_noises (slh_cdim slh)))
                   (mm_modes slh) (mm_noises (slh_cdim slh)) (mm_inputs dip)
                   (mm_init slh (length (mm_modes slh)) (slh_cdim slh) (length dip))
                   (length (mm_modes slh)))"
  let ?ret = "\<lambda>ie r2. if return_eoms
       then r2\<lparr>mm_extras := Some
              (mm_eoms eng (mm_slh_input eng slh ie) (mm_modes slh) (mm_noises (slh_cdim slh)),
               output_processes eng (mm_slh_input eng slh ie) (mm_noises (slh_cdim slh)))\<rparr>
       else r2"
  from assms have "\<exists>ie. mm_inputs_extended (slh_cdim slh) dip = Inr ie \<and>
      (\<exists>r2. ?loop ie = Inr r2 \<and> r = ?ret ie r2)"
    unfolding model_matrices_unfold ebind_eq_Inr by (auto split: if_splits)
  then obtain ie where h: "mm_inputs_extended (slh_cdim slh) dip = Inr ie \<and>
      (\<exists>r2. ?loop ie = Inr r2 \<and> r = ?ret ie r2)" ..
  from h have ie: "mm_inputs_extended (slh_cdim slh) dip = Inr ie" ..
  from h have "\<exists>r2. ?loop ie = Inr r2 \<and> r = ?ret ie r2" ..
  then obtain r2 where h2: "?loop ie = Inr r2 \<and> r = ?ret ie r2" ..
  from h2 have l: "?loop ie = Inr r2" ..
  from h2 have r: "r = ?ret ie r2" ..
  have si: "call_slh_input eng slh dip = mm_slh_input eng slh ie"
    by (simp add: call_slh_input_def ie)
  have eo: "call_eoms eng slh dip =
      mm_eoms eng (mm_slh_input eng slh ie) (mm_modes slh) (mm_noises (slh_cdim slh))"
    by (simp add: call_eoms_def si)
  have "output_inv
           (mode_rows_state eng epsilon (call_eoms eng slh dip) (mm_modes slh)
              (mm_noises (slh_cdim slh)) (mm_inputs dip)
              (mm_init slh (length (mm_modes slh)) (slh_cdim slh) (length dip))
              (length (mm_modes slh)))
           (slh_cdim slh) (length (mm_modes slh)) (length dip) r2"
    unfolding eo
    by (rule output_rows_inv [OF mode_rows_state_output_inv l])
  moreover have "r = (if return_eoms
              then r2\<lparr>mm_extras := Some (call_eoms eng slh dip,
                     output_processes eng (call_slh_input eng slh dip) (mm_noises (slh_cdim slh)))\<rparr>
              else r2)"
    using r by (simp add: eo si)
  ultimately show ?thesis by blast
qed

text \<open>
  The call returns when every port index of \<^verbatim>\<open>dynamic_input_ports\<close> lies in
  \<open>-cdim, \<dots>, cdim - 1\<close> and \<^verbatim>\<open>slh_input.L\<close> has at most \<open>cdim\<close> rows.
\<close>

lemma model_matrices_succeeds:
  assumes p: "\<forall>n \<in> set (map fst dip). - int (slh_cdim slh) \<le> n \<and> n < int (slh_cdim slh)"
    and L: "length (slh_L (call_slh_input eng slh dip)) \<le> slh_cdim slh"
  shows "\<exists>r. model_matrices eng slh dip flag epsilon return_eoms = Inr r"
proof -
  from mm_inputs_extended_succeeds [OF p] obtain ie :: "('a, 'b) operator option list"
    where ie: "mm_inputs_extended (slh_cdim slh) dip = Inr ie"
    by blast
  have si: "call_slh_input eng slh dip = mm_slh_input eng slh ie"
    by (simp add: call_slh_input_def ie)
  from output_rows_succeed [where modes = "mm_modes slh" and inputs = "mm_inputs dip"
      and L = "slh_L (mm_slh_input eng slh ie)" and cdim = "slh_cdim slh" and eng = eng,
      OF _ L [unfolded si]] mode_rows_state_output_inv
  obtain r2 where "for_each (output_row_body eng (mm_modes slh) (mm_inputs dip))
                (enumerate 0 (slh_L (mm_slh_input eng slh ie)))
                (mode_rows_state eng epsilon
                   (mm_eoms eng (mm_slh_input eng slh ie) (mm_modes slh)
                      (mm_noises (slh_cdim slh)))
                   (mm_modes slh) (mm_noises (slh_cdim slh)) (mm_inputs dip)
                   (mm_init slh (length (mm_modes slh)) (slh_cdim slh) (length dip))
                   (length (mm_modes slh))) = Inr r2"
    by (metis length_mm_inputs)
  then show ?thesis by (simp add: model_matrices_unfold ie)
qed

text \<open>The call on the example model, evaluated.\<close>

lemmas call_defs = model_matrices_def mm_modes_def mm_noises_def mm_inputs_def mm_inputs_extended_def
  mm_slh_input_def mm_eoms_def mm_init_def zeros1_def zeros2_def
  mode_row_body_def mode_loop_body_def noise_loop_body_def input_loop_body_def
  output_row_body_def output_mode_body_def output_input_body_def
  setitem1_def setitem2_def list_setitem_def list_getitem_def list_eq_int_def
  kerr_term_def numeric_engine_def mock_engine_def example_slh_def example_eom_def
  get_coeffs_def getitem_def below_epsilon_def
  str_nat.simps digit_char_def Let_def

lemma example_call:
  "model_matrices (numeric_engine example_eom) example_slh [(0, ''in'')] True 0 False =
     Inr (example_result (1 / 1000 / (- (2 * \<i>))))"
  by (simp add: call_defs example_result_def)

lemma example_call_all_truncated:
  "model_matrices (numeric_engine example_eom) example_slh [(0, ''in'')] True 10 False =
     Inr example_result_truncated"
  by (simp add: call_defs example_result_truncated_def)

lemma example_call_truncated:
  "model_matrices (numeric_engine example_eom) example_slh [(0, ''in'')] True (1 / 100) False =
     Inr (example_result 0)"
  by (simp add: call_defs example_result_def norm_divide)


lemma rows_upto_full [simp]: "rows (rows_upto n m f n) = map f [0..<n]"
  by (simp add: rows_upto_def)

lemma has_shape_rows_upto:
  "(\<And>j. j < n \<Longrightarrow> length (f j) = m) \<Longrightarrow> has_shape (rows_upto n m f n) n m"
  by (simp add: has_shape_def list_all_length)

lemma model_matrices_fields:
  assumes "model_matrices eng slh dip flag epsilon return_eoms = Inr r"
  shows "mm_A r = rows_upto (length (mm_modes slh)) (length (mm_modes slh))
            (\<lambda>jj. map (\<lambda>skk. getitem (call_coeffs eng slh dip epsilon jj) (Destroy skk))
                    (mm_modes slh)) (length (mm_modes slh))"
    and "mm_A_kerr r = rows_upto (length (mm_modes slh)) (length (mm_modes slh))
            (\<lambda>jj. map (kerr_entry eng (call_coeffs eng slh dip epsilon jj) (mm_modes slh ! jj))
                    (mm_modes slh)) (length (mm_modes slh))"
    and "mm_B r = rows_upto (length (mm_modes slh)) (slh_cdim slh)
            (\<lambda>jj. map (getitem (call_coeffs eng slh dip epsilon jj)) (mm_noises (slh_cdim slh)))
            (length (mm_modes slh))"
    and "mm_B_input r = rows_upto (length (mm_modes slh)) (length dip)
            (\<lambda>jj. map (getitem (call_coeffs eng slh dip epsilon jj)) (mm_inputs dip))
            (length (mm_modes slh))"
    and "mm_u_c r = map (\<lambda>jj. getitem (call_coeffs eng slh dip epsilon jj) IdentityOperator)
            [0..<length (mm_modes slh)]"
    and "mm_D r = slh_S slh"
    and "has_shape (mm_C r) (slh_cdim slh) (length (mm_modes slh))"
    and "has_shape (mm_D_input r) (slh_cdim slh) (length dip)"
    and "length (mm_U_c r) = slh_cdim slh"
  using model_matrices_Inr [OF assms]
  by (auto simp: output_inv_def mode_rows_state_def mm_init_def call_coeffs_def split: if_splits)

text \<open>
  Claim C9. Every call that returns has arrays of the shapes fixed by \<open>ncav\<close> (the number of
  modes), \<open>cdim\<close> and \<open>ninputs = len(dynamic_input_ports)\<close>: \<open>A\<close> and \<open>A_kerr\<close> are
  \<open>ncav \<times> ncav\<close>, \<open>B\<close> is \<open>ncav \<times> cdim\<close>, \<open>C\<close> is \<open>cdim \<times> ncav\<close>, \<open>B_input\<close> is \<open>ncav \<times> ninputs\<close>,
  \<open>D_input\<close> is \<open>cdim \<times> ninputs\<close>, \<open>u_c\<close> has length \<open>ncav\<close> and \<open>U_c\<close> has length \<open>cdim\<close>.
\<close>

theorem model_matrices_shapes:
  assumes "model_matrices eng slh dynamic_input_ports flag epsilon return_eoms = Inr r"
  shows "has_shape (mm_A r) (length (mm_modes slh)) (length (mm_modes slh))
     \<and> has_shape (mm_B r) (length (mm_modes slh)) (slh_cdim slh)
     \<and> has_shape (mm_C r) (slh_cdim slh) (length (mm_modes slh))
     \<and> has_shape (mm_A_kerr r) (length (mm_modes slh)) (length (mm_modes slh))
     \<and> has_shape (mm_B_input r) (length (mm_modes slh)) (length dynamic_input_ports)
     \<and> has_shape (mm_D_input r) (slh_cdim slh) (length dynamic_input_ports)
     \<and> length (mm_u_c r) = length (mm_modes slh)
     \<and> length (mm_U_c r) = slh_cdim slh
     \<and> length (mm_modes slh) = length (slh_local_factors slh)"
  using model_matrices_fields [OF assms]
  by (simp add: has_shape_rows_upto mm_modes_def)

theorem model_matrices_shapes_witness:
  "model_matrices (numeric_engine example_eom) example_slh [(0, ''in'')] True 0 False =
     Inr (example_result (1 / 1000 / (- (2 * \<i>))))
   \<and> has_shape (mm_B_input (example_result (1 / 1000 / (- (2 * \<i>))))) 1 1
   \<and> has_shape (mm_C (example_result (1 / 1000 / (- (2 * \<i>))))) 1 1
   \<and> length (mm_u_c (example_result (1 / 1000 / (- (2 * \<i>))))) = 1"
  using model_matrices_shapes [OF example_call] example_call
  by (simp add: mm_modes_def example_slh_def)

text \<open>
  Claim C8. In every call that returns, \<open>B_input[row, col]\<close> is the entry of the \<open>col\<close>-th
  dynamic-input symbol in the coefficient map of mode \<open>row\<close>, for every mode row and every
  input column (the guard \<^verbatim>\<open>inputs == 0\<close> never skips a write); with an empty registry
  \<open>B_input\<close> has no column and is the array \<^verbatim>\<open>np.zeros\<close> allocated.
\<close>

theorem model_matrices_B_input:
  assumes "model_matrices eng slh dynamic_input_ports flag epsilon return_eoms = Inr r"
  shows "(\<forall>row < length (mm_modes slh). \<forall>col < length dynamic_input_ports.
            rows (mm_B_input r) ! row ! col =
              getitem (call_coeffs eng slh dynamic_input_ports epsilon row)
                (mm_inputs dynamic_input_ports ! col))
     \<and> has_shape (mm_B_input r) (length (mm_modes slh)) (length dynamic_input_ports)
     \<and> (dynamic_input_ports = [] \<longrightarrow> mm_B_input r = zeros2 (length (mm_modes slh)) 0)"
proof (intro conjI allI impI)
  fix row col
  assume "row < length (mm_modes slh)" "col < length dynamic_input_ports"
  then show "rows (mm_B_input r) ! row ! col =
      getitem (call_coeffs eng slh dynamic_input_ports epsilon row)
        (mm_inputs dynamic_input_ports ! col)"
    by (simp add: model_matrices_fields(4) [OF assms])
next
  show "has_shape (mm_B_input r) (length (mm_modes slh)) (length dynamic_input_ports)"
    by (simp add: model_matrices_fields(4) [OF assms] has_shape_rows_upto)
next
  assume "dynamic_input_ports = []"
  then show "mm_B_input r = zeros2 (length (mm_modes slh)) 0"
    by (simp add: model_matrices_fields(4) [OF assms] rows_upto_def zeros2_def mm_inputs_def
        map_replicate_const)
qed

theorem model_matrices_B_input_witness:
  "model_matrices (numeric_engine example_eom) example_slh [(0, ''in'')] True 0 False =
     Inr (example_result (1 / 1000 / (- (2 * \<i>))))
   \<and> rows (mm_B_input (example_result (1 / 1000 / (- (2 * \<i>))))) ! 0 ! 0 =
       getitem (call_coeffs (numeric_engine example_eom) example_slh [(0, ''in'')] 0 0)
         (mm_inputs [(0, ''in'')] ! 0)
   \<and> getitem (call_coeffs (numeric_engine example_eom) example_slh [(0, ''in'')] 0 0)
         (mm_inputs [(0, ''in'')] ! 0) = 3"
proof -
  let ?r = "example_result (1 / 1000 / (- (2 * \<i>)))"
  from model_matrices_B_input [OF example_call]
  have "\<forall>row < length (mm_modes example_slh). \<forall>col < length [(0::int, ''in'')].
            rows (mm_B_input ?r) ! row ! col =
              getitem (call_coeffs (numeric_engine example_eom) example_slh [(0, ''in'')] 0 row)
                (mm_inputs [(0, ''in'')] ! col)"
    by (rule conjunct1)
  then have 1: "rows (mm_B_input ?r) ! 0 ! 0 =
       getitem (call_coeffs (numeric_engine example_eom) example_slh [(0, ''in'')] 0 0)
         (mm_inputs [(0, ''in'')] ! 0)"
    by (simp add: mm_modes_def example_slh_def)
  have "rows (mm_B_input ?r) ! 0 ! 0 = 3" by (simp add: example_result_def)
  with 1 example_call show ?thesis by simp
qed

lemma model_matrices_A_kerr_entry:
  assumes "model_matrices eng slh dip flag epsilon return_eoms = Inr r"
    and "jj < length (mm_modes slh)" "kk < length (mm_modes slh)"
  shows "rows (mm_A_kerr r) ! jj ! kk =
           getitem (call_coeffs eng slh dip epsilon jj)
             (kerr_term eng (mm_modes slh ! kk) (mm_modes slh ! jj)) / of_complex eng (- (2 * \<i>))"
  using assms(2,3) by (simp add: model_matrices_fields(2) [OF assms(1)] kerr_entry_def)

text \<open>
  Claim C2, as amended. In every call that returns, \<open>A_kerr[jj, kk]\<close> is the entry of the term
  \<^verbatim>\<open>Create(skk) * Destroy(skk) * Destroy(sjj)\<close> in mode \<open>jj\<close>'s coefficient map
  \<^verbatim>\<open>get_coeffs(eoms[jj], epsilon=epsilon)\<close>, divided by \<open>-2\<i>\<close>. That entry is the sum of the
  coefficients of the addends of the equation of motion that carry the term and pass the
  \<open>epsilon\<close> filter: for \<open>epsilon \<le> 0\<close> (the default is \<open>0\<close>) it is the coefficient of the term
  in the equation of motion, and when no kept addend carries the term the entry is zero.
\<close>

theorem model_matrices_A_kerr:
  assumes "model_matrices eng slh dynamic_input_ports flag epsilon return_eoms = Inr r"
    and "jj < length (mm_modes slh)" "kk < length (mm_modes slh)"
  shows "rows (mm_A_kerr r) ! jj ! kk =
           getitem (call_coeffs eng slh dynamic_input_ports epsilon jj)
             (kerr_term eng (mm_modes slh ! kk) (mm_modes slh ! jj)) / of_complex eng (- (2 * \<i>))
     \<and> getitem (call_coeffs eng slh dynamic_input_ports epsilon jj)
             (kerr_term eng (mm_modes slh ! kk) (mm_modes slh ! jj)) =
         coeff_sum (kerr_term eng (mm_modes slh ! kk) (mm_modes slh ! jj))
           (filter (kept eng epsilon) (operands_of (call_eoms eng slh dynamic_input_ports ! jj)))
     \<and> (epsilon \<le> 0 \<longrightarrow>
          rows (mm_A_kerr r) ! jj ! kk =
            coeff_sum (kerr_term eng (mm_modes slh ! kk) (mm_modes slh ! jj))
              (operands_of (call_eoms eng slh dynamic_input_ports ! jj))
            / of_complex eng (- (2 * \<i>)))
     \<and> (kerr_term eng (mm_modes slh ! kk) (mm_modes slh ! jj) \<notin>
          addend_term ` set (filter (kept eng epsilon)
             (operands_of (call_eoms eng slh dynamic_input_ports ! jj))) \<longrightarrow>
          rows (mm_A_kerr r) ! jj ! kk = 0)"
proof -
  let ?key = "kerr_term eng (mm_modes slh ! kk) (mm_modes slh ! jj)"
  let ?es = "operands_of (call_eoms eng slh dynamic_input_ports ! jj)"
  have e: "rows (mm_A_kerr r) ! jj ! kk =
      getitem (call_coeffs eng slh dynamic_input_ports epsilon jj) ?key / of_complex eng (- (2 * \<i>))"
    by (rule model_matrices_A_kerr_entry [OF assms])
  have g: "getitem (call_coeffs eng slh dynamic_input_ports epsilon jj) ?key =
      coeff_sum ?key (filter (kept eng epsilon) ?es)"
    by (simp add: call_coeffs_def getitem_get_coeffs)
  have z: "rows (mm_A_kerr r) ! jj ! kk = coeff_sum ?key ?es / of_complex eng (- (2 * \<i>))"
    if "epsilon \<le> 0"
    using that by (simp add: e g filter_kept_nonpos)
  have a: "rows (mm_A_kerr r) ! jj ! kk = 0"
    if "?key \<notin> addend_term ` set (filter (kept eng epsilon) ?es)"
    using coeff_sum_absent [OF that] by (simp add: e g)
  from e g z a show ?thesis by blast
qed

text \<open>The example model with \<open>epsilon = 0\<close>: the Kerr coefficient \<open>1/1000\<close> gives \<open>\<i>/2000\<close>.\<close>

theorem model_matrices_A_kerr_witness:
  "model_matrices (numeric_engine example_eom) example_slh [(0, ''in'')] True 0 False =
     Inr (example_result (1 / 1000 / (- (2 * \<i>))))
   \<and> rows (mm_A_kerr (example_result (1 / 1000 / (- (2 * \<i>))))) ! 0 ! 0 =
       coeff_sum (kerr_term (numeric_engine example_eom) 0 0)
         (operands_of (call_eoms (numeric_engine example_eom) example_slh [(0, ''in'')] ! 0))
       / of_complex (numeric_engine example_eom) (- (2 * \<i>))
   \<and> rows (mm_A_kerr (example_result (1 / 1000 / (- (2 * \<i>))))) ! 0 ! 0 = \<i> / 2000"
proof -
  let ?r = "example_result (1 / 1000 / (- (2 * \<i>)))"
  have m: "mm_modes example_slh = [0]" by (simp add: mm_modes_def example_slh_def)
  have l: "(0::nat) < length (mm_modes example_slh)" by (simp add: m)
  have "(0::real) \<le> 0" by simp
  with model_matrices_A_kerr [OF example_call l l, THEN conjunct2, THEN conjunct2, THEN conjunct1]
  have 1: "rows (mm_A_kerr ?r) ! 0 ! 0 =
       coeff_sum (kerr_term (numeric_engine example_eom) 0 0)
         (operands_of (call_eoms (numeric_engine example_eom) example_slh [(0, ''in'')] ! 0))
       / of_complex (numeric_engine example_eom) (- (2 * \<i>))"
    by (simp add: m)
  have 2: "rows (mm_A_kerr ?r) ! 0 ! 0 = \<i> / 2000" by (simp add: example_result_def)
  from example_call 1 2 show ?thesis by blast
qed

text \<open>
  Claim C2 as stated fails for \<open>epsilon > 0\<close>: with \<open>epsilon = 1/100\<close> the Kerr addend of the
  example (coefficient \<open>1/1000\<close>) is dropped from the coefficient map, so \<open>A_kerr[0, 0]\<close> is
  \<open>0\<close>, while the coefficient of the term in the equation of motion divided by \<open>-2\<i>\<close> is
  \<open>\<i>/2000\<close>.
\<close>

theorem model_matrices_A_kerr_counterexample:
  "model_matrices (numeric_engine example_eom) example_slh [(0, ''in'')] True (1 / 100) False =
     Inr (example_result 0)
   \<and> rows (mm_A_kerr (example_result 0)) ! 0 ! 0 = 0
   \<and> call_eoms (numeric_engine example_eom) example_slh [(0, ''in'')] ! 0 = example_eom 0
   \<and> coeff_sum (kerr_term (numeric_engine example_eom) 0 0) (operands_of (example_eom 0))
        / of_complex (numeric_engine example_eom) (- (2 * \<i>)) = \<i> / 2000
   \<and> \<i> / 2000 \<noteq> 0"
proof (intro conjI)
  show "model_matrices (numeric_engine example_eom) example_slh [(0, ''in'')] True (1 / 100) False =
     Inr (example_result 0)" by (rule example_call_truncated)
  show "rows (mm_A_kerr (example_result 0)) ! 0 ! 0 = 0" by (simp add: example_result_def)
  show "call_eoms (numeric_engine example_eom) example_slh [(0, ''in'')] ! 0 = example_eom 0"
    by (simp add: call_eoms_def call_slh_input_def mm_eoms_def mm_modes_def example_slh_def
        numeric_engine_def mock_engine_def)
  show "coeff_sum (kerr_term (numeric_engine example_eom) 0 0) (operands_of (example_eom 0))
        / of_complex (numeric_engine example_eom) (- (2 * \<i>)) = \<i> / 2000"
    by (simp add: coeff_sum_def kerr_term_def numeric_engine_def mock_engine_def example_eom_def
        addend_term_def addend_coeff_def)
  show "\<i> / 2000 \<noteq> 0" by simp
qed

text \<open>
  Claim C7. \<^verbatim>\<open>model_matrices\<close> never reads \<^verbatim>\<open>apply_kerr_diagonal_correction\<close>: the call with
  \<open>True\<close> and the call with \<open>False\<close> give the same result (the same error, or the same nine
  arrays and trailing elements). In particular the diagonal of \<open>A\<close> is the plain entry of
  \<^verbatim>\<open>Destroy(sjj)\<close> in mode \<open>jj\<close>'s coefficient map whatever the flag: no Kerr term is folded
  into it.
\<close>

theorem model_matrices_ignores_kerr_flag:
  "model_matrices eng slh dynamic_input_ports True epsilon return_eoms =
     model_matrices eng slh dynamic_input_ports False epsilon return_eoms
   \<and> (model_matrices eng slh dynamic_input_ports flag epsilon return_eoms = Inr r \<longrightarrow>
        jj < length (mm_modes slh) \<longrightarrow>
        rows (mm_A r) ! jj ! jj =
          getitem (call_coeffs eng slh dynamic_input_ports epsilon jj) (Destroy (mm_modes slh ! jj)))"
proof (intro conjI impI)
  show "model_matrices eng slh dynamic_input_ports True epsilon return_eoms =
     model_matrices eng slh dynamic_input_ports False epsilon return_eoms"
    by (simp add: model_matrices_def)
next
  assume r: "model_matrices eng slh dynamic_input_ports flag epsilon return_eoms = Inr r"
    and jj: "jj < length (mm_modes slh)"
  show "rows (mm_A r) ! jj ! jj =
          getitem (call_coeffs eng slh dynamic_input_ports epsilon jj) (Destroy (mm_modes slh ! jj))"
    using jj by (simp add: model_matrices_fields(1) [OF r])
qed

theorem model_matrices_ignores_kerr_flag_witness:
  "model_matrices (numeric_engine example_eom) example_slh [(0, ''in'')] False 0 False =
     Inr (example_result (1 / 1000 / (- (2 * \<i>))))
   \<and> rows (mm_A (example_result (1 / 1000 / (- (2 * \<i>))))) ! 0 ! 0 =
       getitem (call_coeffs (numeric_engine example_eom) example_slh [(0, ''in'')] 0 0)
         (Destroy (mm_modes example_slh ! 0))
   \<and> rows (mm_A (example_result (1 / 1000 / (- (2 * \<i>))))) ! 0 ! 0 = - 1"
proof -
  let ?r = "example_result (1 / 1000 / (- (2 * \<i>)))"
  let ?E = "numeric_engine example_eom"
  have l: "(0::nat) < length (mm_modes example_slh)" by (simp add: mm_modes_def example_slh_def)
  note t = model_matrices_ignores_kerr_flag [of ?E example_slh "[(0, ''in'')]" 0 False True ?r 0]
  from t have "model_matrices ?E example_slh [(0, ''in'')] True 0 False =
     model_matrices ?E example_slh [(0, ''in'')] False 0 False" by (rule conjunct1)
  with example_call have 1: "model_matrices ?E example_slh [(0, ''in'')] False 0 False = Inr ?r"
    by simp
  from t [THEN conjunct2, THEN mp, OF example_call, THEN mp, OF l]
  have 2: "rows (mm_A ?r) ! 0 ! 0 =
       getitem (call_coeffs ?E example_slh [(0, ''in'')] 0 0) (Destroy (mm_modes example_slh ! 0))" .
  have 3: "rows (mm_A ?r) ! 0 ! 0 = - 1" by (simp add: example_result_def)
  from 1 2 3 show ?thesis by blast
qed



text \<open>The second loop nest reads and writes only the output-coupling part of the state.\<close>

lemma output_mode_body_rel:
  "output_part r = output_part r' \<Longrightarrow>
     rel_sum (=) (\<lambda>a b. output_part a = output_part b)
       (output_mode_body cf jj x r) (output_mode_body cf jj x r')"
  by (cases x) (simp add: output_mode_body_def output_part_def ebind_def split: sum.splits)

lemma output_input_body_rel:
  "output_part r = output_part r' \<Longrightarrow>
     rel_sum (=) (\<lambda>a b. output_part a = output_part b)
       (output_input_body cf jj x r) (output_input_body cf jj x r')"
  by (cases x) (simp add: output_input_body_def output_part_def ebind_def split: sum.splits)

lemma output_row_body_rel:
  assumes "output_part r = output_part r'"
  shows "rel_sum (=) (\<lambda>a b. output_part a = output_part b)
       (output_row_body eng modes inputs x r) (output_row_body eng modes inputs x r')"
proof -
  obtain jj Ljj where x: "x = (jj, Ljj)" by (cases x)
  let ?cf = "get_coeffs eng Ljj False 0"
  let ?R = "\<lambda>a b :: ('a, 'b) model_matrices_result. output_part a = output_part b"
  have 1: "rel_sum (=) ?R (for_each (output_mode_body ?cf jj) (enumerate 0 modes) r)
             (for_each (output_mode_body ?cf jj) (enumerate 0 modes) r')"
    by (rule for_each_rel [where R = ?R, OF _ assms]) (rule output_mode_body_rel)
  show ?thesis
  proof (cases "for_each (output_mode_body ?cf jj) (enumerate 0 modes) r")
    case (Inl e)
    with 1 have "for_each (output_mode_body ?cf jj) (enumerate 0 modes) r' = Inl e"
      by (cases "for_each (output_mode_body ?cf jj) (enumerate 0 modes) r'") simp_all
    with Inl show ?thesis by (simp add: x output_row_body_def)
  next
    case (Inr r1)
    with 1 obtain r1' where r1': "for_each (output_mode_body ?cf jj) (enumerate 0 modes) r' = Inr r1'"
      and q: "output_part r1 = output_part r1'"
      by (cases "for_each (output_mode_body ?cf jj) (enumerate 0 modes) r'") simp_all
    from q have u: "mm_U_c r1 = mm_U_c r1'" by (simp add: output_part_def)
    show ?thesis
    proof (cases "setitem1 (mm_U_c r1) jj (getitem ?cf IdentityOperator)")
      case (Inl e)
      with Inr r1' u show ?thesis by (simp add: x output_row_body_def)
    next
      case (Inr v)
      from q have "output_part (r1\<lparr>mm_U_c := v\<rparr>) = output_part (r1'\<lparr>mm_U_c := v\<rparr>)"
        by (simp add: output_part_def)
      then have "rel_sum (=) ?R
          (for_each (output_input_body ?cf jj) (enumerate 0 inputs) (r1\<lparr>mm_U_c := v\<rparr>))
          (for_each (output_input_body ?cf jj) (enumerate 0 inputs) (r1'\<lparr>mm_U_c := v\<rparr>))"
        by (rule for_each_rel [where R = ?R, rotated]) (rule output_input_body_rel)
      with Inr \<open>for_each (output_mode_body ?cf jj) (enumerate 0 modes) r = Inr r1\<close> r1' u
      show ?thesis by (simp add: x output_row_body_def)
    qed
  qed
qed

lemma output_rows_rel:
  assumes "output_part r = output_part r'"
  shows "rel_sum (=) (\<lambda>a b. output_part a = output_part b)
       (for_each (output_row_body eng modes inputs) xs r)
       (for_each (output_row_body eng modes inputs) xs r')"
  by (rule for_each_rel [where R = "\<lambda>a b. output_part a = output_part b", OF _ assms])
     (rule output_row_body_rel)

text \<open>
  Claim C10. The output-coupling part of the result (\<open>C\<close>, \<open>U_c\<close> and \<open>D_input\<close>, or the error
  raised) is the same for every \<open>epsilon\<close> as for \<open>epsilon = 0\<close>: the second loop nest calls
  \<^verbatim>\<open>get_coeffs(Ljj)\<close> without \<open>epsilon\<close>, and reads nothing that the first loop nest wrote.
\<close>

theorem model_matrices_output_epsilon:
  "map_sum (\<lambda>e. e) output_part
     (model_matrices eng slh dynamic_input_ports flag epsilon return_eoms) =
   map_sum (\<lambda>e. e) output_part
     (model_matrices eng slh dynamic_input_ports flag 0 return_eoms)"
proof (cases "mm_inputs_extended (slh_cdim slh) dynamic_input_ports
                :: py_error + ('a, 'b) operator option list")
  case (Inl e)
  then show ?thesis by (simp add: model_matrices_unfold)
next
  case (Inr ie)
  let ?S = "\<lambda>eps. mode_rows_state eng eps
                   (mm_eoms eng (mm_slh_input eng slh ie) (mm_modes slh)
                      (mm_noises (slh_cdim slh)))
                   (mm_modes slh) (mm_noises (slh_cdim slh)) (mm_inputs dynamic_input_ports)
                   (mm_init slh (length (mm_modes slh)) (slh_cdim slh)
                      (length dynamic_input_ports))
                   (length (mm_modes slh))"
  let ?loop = "\<lambda>eps. for_each (output_row_body eng (mm_modes slh) (mm_inputs dynamic_input_ports))
                (enumerate 0 (slh_L (mm_slh_input eng slh ie))) (?S eps)"
  have "output_part (?S epsilon) = output_part (?S 0)"
    by (simp add: output_part_def mode_rows_state_def)
  then have rel: "rel_sum (=) (\<lambda>a b. output_part a = output_part b) (?loop epsilon) (?loop 0)"
    by (rule output_rows_rel)
  show ?thesis
  proof (cases "?loop epsilon")
    case (Inl e)
    with rel have "?loop 0 = Inl e" by (cases "?loop 0") simp_all
    with Inl Inr show ?thesis by (simp add: model_matrices_unfold)
  next
    case r: (Inr r2)
    with rel obtain r2' where r2': "?loop 0 = Inr r2'" and q: "output_part r2 = output_part r2'"
      by (cases "?loop 0") simp_all
    from q r r2' Inr show ?thesis
      by (simp add: model_matrices_unfold output_part_def)
  qed
qed

text \<open>
  The example model with \<open>epsilon = 10\<close>: every addend of the equation of motion is dropped,
  the coupling \<open>2 a\<close> of the port and its input symbol are still read in full.
\<close>

theorem model_matrices_output_epsilon_witness:
  "map_sum (\<lambda>e. e) output_part
     (model_matrices (numeric_engine example_eom) example_slh [(0, ''in'')] True 10 False) =
     Inr (\<lparr>shape0 = 1, shape1 = 1, rows = [[2]]\<rparr>, [0], \<lparr>shape0 = 1, shape1 = 1, rows = [[1]]\<rparr>)
   \<and> model_matrices (numeric_engine example_eom) example_slh [(0, ''in'')] True 10 False =
     Inr example_result_truncated"
  using model_matrices_output_epsilon [of "numeric_engine example_eom" example_slh
      "[(0, ''in'')]" True 10 False] example_call example_call_all_truncated
  by (simp add: output_part_def example_result_def)

end
